theory Spec2Isabelle
  imports Complex_Main "HOL-Library.AList" "HOL-Library.Multiset"
begin

section \<open>Data model\<close>

text \<open>
  Python numbers (\<^verbatim>\<open>float\<close> coordinates, widths, gaps) are modelled as reals with exact
  arithmetic; orientations and rotations are whole degrees (\<^verbatim>\<open>int\<close>), as the source
  annotates them. A Python \<^verbatim>\<open>dict\<close> is an association list in insertion order, read with
  \<^const>\<open>map_of\<close> and written with \<^const>\<open>AList.update\<close> (an existing key keeps its place,
  a new key goes to the end). A raised exception is the \<open>Inl\<close> of a sum.
\<close>

type_synonym point = "real \<times> real"
type_synonym layer = "int \<times> int"
type_synonym polygon = "point list \<times> layer"

datatype error =
    InvalidParameterError
  | DuplicateNameError
  | MisalignedPortError
  | RoutingInfeasibleError
  | AssertionError
  | KeyError
  | ValueError
  | IndexError
  | AttributeError
  | TypeError

text \<open>Port names are strings; \<^verbatim>\<open>straight_with_heater\<close> also uses the integers 1 and 2.\<close>

datatype port_name = Str string | Num int

record port =
  name :: port_name
  midpoint :: point
  width :: real
  orientation :: int
  layer :: layer
  port_type :: string

text \<open>
  A component owns polygons, child references and a name-to-port dictionary; a bend also
  carries the attribute \<^verbatim>\<open>length\<close> that \<^verbatim>\<open>get_routes_bend180\<close> reads. A reference is a
  child component with a translation, a rotation and a mirror flag.
\<close>

datatype component = Component
    (polygons: "polygon list")
    (references: "reference list")
    (ports: "(port_name \<times> port) list")
    (length_c: "real option")
  and reference = ComponentReference
    (parent: component)
    (origin: point)
    (rotation: int)
    (x_reflection: bool)

record Routes =
  routes_references :: "reference list"
  routes_ports :: "(port_name \<times> port) list"
  lengths :: "real list"

text \<open>The two shapes of the argument \<^verbatim>\<open>ports: Union[List[Port], Dict[str, Port]]\<close>.\<close>

datatype ports_arg = PortList "port list" | PortDict "(port_name \<times> port) list"

section \<open>The layout kernel used by the factories\<close>

text \<open>
  The classes \<^verbatim>\<open>Port\<close>, \<^verbatim>\<open>Component\<close> and \<^verbatim>\<open>ComponentReference\<close> are imported by every
  file under src/ but are not among them. Every definition of this section is modelled
  from the spec (its data model and its sections 4.1 and 4.3) and says so.
\<close>

text \<open>
  Modelled from the spec: the rigid transform of a reference and \<^verbatim>\<open>reference.ports\<close>, which
  are missing from src/. A reference places its child by mirror, rotation (in degrees,
  about the origin) and translation; its ports are the child's ports under that
  transform, their orientations reduced to \<open>[0, 360)\<close>.
\<close>

definition rotate_point :: "int \<Rightarrow> point \<Rightarrow> point" where
  "rotate_point a p =
     (let t = real_of_int a * pi / 180
      in (fst p * cos t - snd p * sin t, fst p * sin t + snd p * cos t))"

definition transform_point :: "reference \<Rightarrow> point \<Rightarrow> point" where
  "transform_point r p =
     (let q = rotate_point (rotation r) (fst p, if x_reflection r then - snd p else snd p)
      in (fst q + fst (origin r), snd q + snd (origin r)))"

definition transform_port :: "reference \<Rightarrow> port \<Rightarrow> port" where
  "transform_port r p =
     p\<lparr>midpoint := transform_point r (midpoint p),
       orientation :=
         ((if x_reflection r then - orientation p else orientation p) + rotation r) mod 360\<rparr>"

definition ref_ports :: "reference \<Rightarrow> (port_name \<times> port) list" where
  "ref_ports r = map (\<lambda>(k, p). (k, transform_port r p)) (ports (parent r))"

text \<open>
  Modelled from the spec: \<^verbatim>\<open>component.ref()\<close>, \<^verbatim>\<open>move\<close>, \<^verbatim>\<open>movex\<close>, \<^verbatim>\<open>movey\<close> and
  \<^verbatim>\<open>rotate\<close> of a reference, which are missing from src/. A fresh reference sits at the
  origin, not rotated, not mirrored; moving adds to its translation; rotating by an angle
  about a centre turns its translation about that centre and adds to its rotation.
\<close>

definition ref :: "component \<Rightarrow> reference" where
  "ref c = ComponentReference c (0, 0) 0 False"

definition move :: "reference \<Rightarrow> point \<Rightarrow> reference" where
  "move r d =
     ComponentReference (parent r) (fst (origin r) + fst d, snd (origin r) + snd d)
       (rotation r) (x_reflection r)"

definition movex :: "reference \<Rightarrow> real \<Rightarrow> reference" where
  "movex r dx = move r (dx, 0)"

definition movey :: "reference \<Rightarrow> real \<Rightarrow> reference" where
  "movey r dy = move r (0, dy)"

definition rotate_ref :: "reference \<Rightarrow> int \<Rightarrow> point \<Rightarrow> reference" where
  "rotate_ref r a c =
     (let q = rotate_point a (fst (origin r) - fst c, snd (origin r) - snd c)
      in ComponentReference (parent r) (fst q + fst c, snd q + snd c)
           (rotation r + a) (x_reflection r))"

text \<open>
  Modelled from the spec: \<^verbatim>\<open>ref.connect(port, destination)\<close>, which is missing from src/.
  Section 4.3: the reference is translated so that its port meets the destination and
  rotated about that point until the two ports are antiparallel. \<open>connect_port\<close> is this
  geometry, for a port \<open>p\<close> of the reference itself; \<open>connect\<close> looks the port up by its
  name first (\<^verbatim>\<open>ValueError\<close> when the reference has no such port). The reference is
  returned, as the list comprehension of \<^verbatim>\<open>get_routes_bend180\<close> relies on.
\<close>

definition connect_port :: "reference \<Rightarrow> port \<Rightarrow> port \<Rightarrow> reference" where
  "connect_port r p destination =
     rotate_ref
       (move r (fst (midpoint destination) - fst (midpoint p),
                snd (midpoint destination) - snd (midpoint p)))
       (180 + orientation destination - orientation p)
       (midpoint destination)"

definition connect :: "reference \<Rightarrow> port_name \<Rightarrow> port \<Rightarrow> error + reference" where
  "connect r k destination =
     (case map_of (ref_ports r) k of
        None \<Rightarrow> Inl ValueError
      | Some p \<Rightarrow> Inr (connect_port r p destination))"

text \<open>
  Modelled from the spec: \<^verbatim>\<open>Component()\<close>, \<^verbatim>\<open>add_polygon\<close>, \<^verbatim>\<open>component.add(reference)\<close> and
  \<^verbatim>\<open>c << child\<close> (\<^verbatim>\<open>add_ref\<close>, which returns the new reference), which are missing from
  src/. A new component is empty; polygons and references are appended.
\<close>

definition Component_new :: component where
  "Component_new = Component [] [] [] None"

definition add_polygon :: "component \<Rightarrow> point list \<Rightarrow> layer \<Rightarrow> component" where
  "add_polygon c points l =
     Component (polygons c @ [(points, l)]) (references c) (ports c) (length_c c)"

definition add :: "component \<Rightarrow> reference \<Rightarrow> component" where
  "add c r = Component (polygons c) (references c @ [r]) (ports c) (length_c c)"

definition add_ref :: "component \<Rightarrow> component \<Rightarrow> component \<times> reference" where
  "add_ref c child = (add c (ref child), ref child)"

text \<open>
  A reference is a mutable object that the component holds: moving it after it was added
  moves it inside the component. \<open>update_ref c old new\<close> writes the moved reference back.
  References are compared by their fields here; two references of one component that
  agree in every field are interchangeable, so which of the two is replaced (or removed,
  in \<open>absorb\<close>) changes at most the order of the list.
\<close>

fun replace_first :: "'a \<Rightarrow> 'a \<Rightarrow> 'a list \<Rightarrow> 'a list" where
  "replace_first old new [] = []"
| "replace_first old new (x # xs) =
     (if x = old then new # xs else x # replace_first old new xs)"

definition update_ref :: "component \<Rightarrow> reference \<Rightarrow> reference \<Rightarrow> component" where
  "update_ref c old new =
     Component (polygons c) (replace_first old new (references c)) (ports c) (length_c c)"

text \<open>
  Modelled from the spec: the flattened polygons of a component and of a reference
  (\<^verbatim>\<open>get_polygons\<close>), which are missing from src/: a component's own polygons, then those
  of its references, each under its transform.
\<close>

definition transform_polygon :: "reference \<Rightarrow> polygon \<Rightarrow> polygon" where
  "transform_polygon r pg = (map (transform_point r) (fst pg), snd pg)"

fun flatten :: "component \<Rightarrow> polygon list"
  and get_polygons :: "reference \<Rightarrow> polygon list" where
  "flatten (Component pgs rs pts len) = pgs @ concat (map get_polygons rs)"
| "get_polygons (ComponentReference c org rot xr) =
     map (transform_polygon (ComponentReference c org rot xr)) (flatten c)"

text \<open>
  Modelled from the spec: \<^verbatim>\<open>component.absorb(reference)\<close>, which is missing from src/.
  Section 4.1: the reference's polygons, under its transform, become polygons of the
  parent and the reference is removed; a reference that is not (or no longer) one of the
  component's fails. The ports stay with the caller: \<^verbatim>\<open>coupler90\<close> and
  \<^verbatim>\<open>straight_heater\<close> add every port themselves after absorbing, under the names the
  child gave them, which would collide if \<^verbatim>\<open>absorb\<close> had stored them already.
\<close>

definition absorb :: "component \<Rightarrow> reference \<Rightarrow> error + component" where
  "absorb c r =
     (if r \<in> set (references c)
      then Inr (Component (polygons c @ get_polygons r) (remove1 r (references c))
                  (ports c) (length_c c))
      else Inl ValueError)"

text \<open>
  Modelled from the spec: \<^verbatim>\<open>add_port\<close> and the constructor of \<^verbatim>\<open>Port\<close>, which are missing
  from src/. \<^verbatim>\<open>add_port(name, port=p)\<close> stores a copy of \<open>p\<close> under the new name;
  \<^verbatim>\<open>add_port(name, midpoint, width, orientation, layer, port_type)\<close> builds the port from
  its fields. A name the component already has is a \<^verbatim>\<open>DuplicateNameError\<close>. A new port
  keeps the invariant of the spec's data model: its orientation is reduced to \<open>[0, 360)\<close>
  and a width that is not positive is an \<^verbatim>\<open>InvalidParameterError\<close>.
\<close>

definition add_port :: "component \<Rightarrow> port_name \<Rightarrow> port \<Rightarrow> error + component" where
  "add_port c k p =
     (if k \<in> fst ` set (ports c) then Inl DuplicateNameError
      else Inr (Component (polygons c) (references c) (ports c @ [(k, p\<lparr>name := k\<rparr>)])
                  (length_c c)))"

definition Port :: "port_name \<Rightarrow> point \<Rightarrow> real \<Rightarrow> int \<Rightarrow> layer \<Rightarrow> string \<Rightarrow> error + port" where
  "Port k m w a l t =
     (if w \<le> 0 then Inl InvalidParameterError
      else Inr \<lparr>name = k, midpoint = m, width = w, orientation = a mod 360, layer = l,
                 port_type = t\<rparr>)"

definition add_port_fields ::
  "component \<Rightarrow> port_name \<Rightarrow> point \<Rightarrow> real \<Rightarrow> int \<Rightarrow> layer \<Rightarrow> string
     \<Rightarrow> error + component" where
  "add_port_fields c k m w a l t =
     (case Port k m w a l t of Inl e \<Rightarrow> Inl e | Inr p \<Rightarrow> add_port c k p)"

text \<open>
  Modelled from the spec: bounding-box queries of a reference (\<^verbatim>\<open>xmin\<close>, \<^verbatim>\<open>xmax\<close>, over its
  flattened polygons; 0 for a reference without geometry) and their setters, which move
  the reference; \<^verbatim>\<open>component.ref(position=...)\<close>.
\<close>

definition xs_of :: "reference \<Rightarrow> real list" where
  "xs_of r = concat (map (\<lambda>pg. map fst (fst pg)) (get_polygons r))"

definition xmin :: "reference \<Rightarrow> real" where
  "xmin r = (case xs_of r of [] \<Rightarrow> 0 | x # xs \<Rightarrow> fold min xs x)"

definition xmax :: "reference \<Rightarrow> real" where
  "xmax r = (case xs_of r of [] \<Rightarrow> 0 | x # xs \<Rightarrow> fold max xs x)"

definition set_xmin :: "reference \<Rightarrow> real \<Rightarrow> reference" where
  "set_xmin r v = movex r (v - xmin r)"

definition set_xmax :: "reference \<Rightarrow> real \<Rightarrow> reference" where
  "set_xmax r v = movex r (v - xmax r)"

definition ref_at :: "component \<Rightarrow> point \<Rightarrow> reference" where
  "ref_at c position = ComponentReference c position 0 False"

section \<open>Python helpers\<close>

text \<open>\<^verbatim>\<open>d[k]\<close>: a missing key raises \<^verbatim>\<open>KeyError\<close>.\<close>

definition getitem :: "('k \<times> 'v) list \<Rightarrow> 'k \<Rightarrow> error + 'v" where
  "getitem d k = (case map_of d k of None \<Rightarrow> Inl KeyError | Some p \<Rightarrow> Inr p)"

text \<open>A list comprehension whose element expression may raise: the first exception wins.\<close>

fun sequence :: "('e + 'a) list \<Rightarrow> 'e + 'a list" where
  "sequence [] = Inr []"
| "sequence (x # xs) =
     (case x of
        Inl e \<Rightarrow> Inl e
      | Inr a \<Rightarrow> (case sequence xs of Inl e \<Rightarrow> Inl e | Inr as \<Rightarrow> Inr (a # as)))"

text \<open>Sequencing of statements that may raise.\<close>

definition and_then :: "'e + 'a \<Rightarrow> ('a \<Rightarrow> 'e + 'b) \<Rightarrow> 'e + 'b" where
  "and_then m f = (case m of Inl e \<Rightarrow> Inl e | Inr a \<Rightarrow> f a)"

text \<open>
  \<^verbatim>\<open>component.ports[k].orientation = a\<close>, \<^verbatim>\<open>xs[-1]\<close>, \<^verbatim>\<open>xs[i]\<close> for \<open>i \<ge> 0\<close>, and the
  arithmetic of points (numpy arrays of two numbers): sum, scaling, \<^verbatim>\<open>sum(points)\<close>.
\<close>

definition set_orientation :: "component \<Rightarrow> port_name \<Rightarrow> int \<Rightarrow> error + component" where
  "set_orientation c k a =
     (case map_of (ports c) k of
        None \<Rightarrow> Inl KeyError
      | Some p \<Rightarrow>
          Inr (Component (polygons c) (references c)
                 (AList.update k (p\<lparr>orientation := a\<rparr>) (ports c)) (length_c c)))"

definition last_item :: "'a list \<Rightarrow> error + 'a" where
  "last_item xs = (if xs = [] then Inl IndexError else Inr (last xs))"

definition item :: "'a list \<Rightarrow> nat \<Rightarrow> error + 'a" where
  "item xs i = (if i < length xs then Inr (xs ! i) else Inl IndexError)"

definition padd :: "point \<Rightarrow> point \<Rightarrow> point" where
  "padd p q = (fst p + fst q, snd p + snd q)"

definition pscale :: "real \<Rightarrow> point \<Rightarrow> point" where
  "pscale a p = (a * fst p, a * snd p)"

definition psum :: "point list \<Rightarrow> point" where
  "psum ps = fold (\<lambda>p acc. padd acc p) ps (0, 0)"

text \<open>A \<^verbatim>\<open>for\<close> loop whose body may raise: the first exception ends it.\<close>

fun for_each :: "('s \<Rightarrow> 'a \<Rightarrow> 'e + 's) \<Rightarrow> 'a list \<Rightarrow> 's \<Rightarrow> 'e + 's" where
  "for_each body [] s = Inr s"
| "for_each body (x # xs) s = and_then (body s x) (for_each body xs)"

text \<open>A dict comprehension: the items are stored one after the other.\<close>

definition dict_of :: "('k \<times> 'v) list \<Rightarrow> ('k \<times> 'v) list" where
  "dict_of items = fold (\<lambda>(k, v) d. AList.update k v d) items []"

text \<open>\<^verbatim>\<open>f"{i}"\<close> for an index \<open>i \<ge> 0\<close>: its decimal digits.\<close>

definition digit :: "nat \<Rightarrow> char" where
  "digit d = ''0123456789'' ! d"

fun py_str :: "nat \<Rightarrow> string" where
  "py_str n = (if n < 10 then [digit n] else py_str (n div 10) @ [digit (n mod 10)])"

declare py_str.simps [simp del]

text \<open>Reading a decimal string back, to tell two indices' keys apart.\<close>

definition digit_value :: "char \<Rightarrow> nat" where
  "digit_value c = length (takeWhile (\<lambda>x. x \<noteq> c) ''0123456789'')"

definition digits_value :: "string \<Rightarrow> nat" where
  "digits_value cs = foldl (\<lambda>a c. 10 * a + digit_value c) 0 cs"

section \<open>routing/get_routes_bend180.py\<close>

text \<open>
  The bend factory is the caller's; it may read and write state of its own (the cell
  cache), so it is a state-passing function here and \<^verbatim>\<open>get_routes_bend180\<close> threads the
  state through its single call. \<open>cross_section\<close> and \<open>kwargs\<close> are only handed on.
\<close>

definition ports_list :: "ports_arg \<Rightarrow> port list" where
  "ports_list ports_in = (case ports_in of PortDict d \<Rightarrow> map snd d | PortList l \<Rightarrow> l)"

definition get_routes_bend180 ::
  "ports_arg \<Rightarrow> (int \<Rightarrow> 'x \<Rightarrow> 'k \<Rightarrow> 's \<Rightarrow> (error + component) \<times> 's) \<Rightarrow> 'x \<Rightarrow> 'k \<Rightarrow> 's
     \<Rightarrow> (error + Routes) \<times> 's" where
  "get_routes_bend180 ports_in bend_factory cross_section kwargs s =
     (let ports0 = ports_list ports_in
      in case bend_factory 180 cross_section kwargs s of
           (Inl e, s') \<Rightarrow> (Inl e, s')
         | (Inr bend, s') \<Rightarrow>
             (let references0 = map (\<lambda>port. ref bend) ports0
              in case sequence (map (\<lambda>(port, r). connect r (Str ''W0'') port)
                                   (zip ports0 references0)) of
                   Inl e \<Rightarrow> (Inl e, s')
                 | Inr references1 \<Rightarrow>
                     (case sequence (map (\<lambda>(i, r). getitem (ref_ports r) (Str ''W1''))
                                        (enumerate 0 references1)) of
                        Inl e \<Rightarrow> (Inl e, s')
                      | Inr outs \<Rightarrow>
                          (let ports1 = dict_of (map (\<lambda>(i, p). (Str (py_str i), p))
                                                    (enumerate 0 outs))
                           in case length_c bend of
                                None \<Rightarrow> (Inl AttributeError, s')
                              | Some l \<Rightarrow>
                                  (Inr \<lparr>routes_references = references1,
                                        routes_ports = ports1,
                                        lengths = replicate (length ports1) l\<rparr>, s')))))"

section \<open>components/triangle.py\<close>

text \<open>
  The function under the \<^verbatim>\<open>@cell\<close> decorator. It checks none of its arguments, and no
  statement of it can raise.
\<close>

definition triangle :: "real \<Rightarrow> real \<Rightarrow> real \<Rightarrow> layer \<Rightarrow> error + component" where
  "triangle x xtop y l =
     (let c = Component_new;
          points = [(0, 0), (x, 0), (xtop, y), (0, y)];
          c = add_polygon c points l
      in Inr c)"

text \<open>
  The area of a polygon by the shoelace formula, to say what the spec's ``degenerate
  (zero-area)'' geometry is.
\<close>

fun shoelace :: "point list \<Rightarrow> real" where
  "shoelace (p # q # ps) = fst p * snd q - fst q * snd p + shoelace (q # ps)"
| "shoelace ps = 0"

definition polygon_area :: "point list \<Rightarrow> real" where
  "polygon_area ps = (case ps of [] \<Rightarrow> 0 | p # qs \<Rightarrow> \<bar>shoelace (ps @ [p])\<bar> / 2)"

section \<open>components/fiber_array.py\<close>

text \<open>
  The function under the decorators \<^verbatim>\<open>@cell\<close> and \<^verbatim>\<open>@validate_arguments\<close> (which checks the
  types of the arguments, not their signs). \<^verbatim>\<open>circle\<close> is imported from a file that is not
  under src/ and is an argument here, as are the defaults of \<^verbatim>\<open>add_port\<close> for the fields
  the call leaves out (midpoint, layer, port type). \<^verbatim>\<open>range(n)\<close> is empty for \<open>n \<le> 0\<close>.
\<close>

definition fiber_array ::
  "int \<Rightarrow> real \<Rightarrow> real \<Rightarrow> real \<Rightarrow> layer \<Rightarrow> layer \<Rightarrow> (real \<Rightarrow> layer \<Rightarrow> error + component)
     \<Rightarrow> point \<times> layer \<times> string \<Rightarrow> error + component" where
  "fiber_array n pitch core_diameter cladding_diameter layer_core layer_cladding circle
       port_defaults =
     (let c = Component_new in
      for_each
        (\<lambda>c i.
           and_then (circle (core_diameter / 2) layer_core) (\<lambda>core_circle.
           case add_ref c core_circle of (c1, core) \<Rightarrow>
           and_then (circle (cladding_diameter / 2) layer_cladding) (\<lambda>cladding_circle.
           case add_ref c1 cladding_circle of (c2, cladding) \<Rightarrow>
           let core' = movex core (real i * pitch);
               c3 = update_ref c2 core core';
               cladding' = movex cladding (real i * pitch);
               c4 = update_ref c3 cladding cladding'
           in add_port_fields c4 (Str (''F'' @ py_str i)) (fst port_defaults) core_diameter 0
                (fst (snd port_defaults)) (snd (snd port_defaults)))))
        [0..<nat n] c)"

section \<open>components/coupler90.py\<close>

text \<open>
  \<^verbatim>\<open>cross_section\<close> is a factory of cross-sections, of which only \<^verbatim>\<open>info["width"]\<close> is
  read; \<^verbatim>\<open>bend\<close> is a factory or an already built component
  (\<^verbatim>\<open>bend(...) if callable(bend) else bend\<close>); \<^verbatim>\<open>straight\<close> is the imported factory, which
  is always callable. Neither the factories nor their defaults are under src/, so they are
  arguments here; they are pure functions, as section 5 of the spec has them, since
  \<^verbatim>\<open>coupler90\<close> calls each of them once. \<^verbatim>\<open>radius\<close> only reaches \<^verbatim>\<open>cross_section\<close>.
\<close>

record cross_section =
  info :: "(string \<times> real) list"

type_synonym 'k cross_section_factory = "real \<Rightarrow> 'k \<Rightarrow> error + cross_section"

datatype 'k component_or_factory =
    Factory "'k cross_section_factory \<Rightarrow> 'k \<Rightarrow> error + component"
  | Prebuilt component

definition call_if_callable ::
  "'k component_or_factory \<Rightarrow> 'k cross_section_factory \<Rightarrow> 'k \<Rightarrow> error + component" where
  "call_if_callable bend cross_section kwargs =
     (case bend of Factory f \<Rightarrow> f cross_section kwargs | Prebuilt b \<Rightarrow> Inr b)"

definition coupler90 ::
  "real \<Rightarrow> real \<Rightarrow> 'k component_or_factory \<Rightarrow> 'k cross_section_factory \<Rightarrow> 'k
     \<Rightarrow> ('k cross_section_factory \<Rightarrow> real \<Rightarrow> 'k \<Rightarrow> error + component) \<Rightarrow> error + component" where
  "coupler90 gap radius bend cross_section kwargs straight =
     (let c0 = Component_new in
      and_then (cross_section radius kwargs) (\<lambda>x.
      and_then (call_if_callable bend cross_section kwargs) (\<lambda>bend90.
      case add_ref c0 bend90 of (c1, bend_ref) \<Rightarrow>
      and_then (getitem (ports bend90) (Str ''N0'')) (\<lambda>n0.
      and_then (getitem (ports bend90) (Str ''W0'')) (\<lambda>w0.
      and_then (straight cross_section (fst (midpoint n0) - fst (midpoint w0)) kwargs)
        (\<lambda>straight_component.
      case add_ref c1 straight_component of (c2, wg_ref) \<Rightarrow>
      and_then (getitem (info x) ''width'') (\<lambda>width.
      and_then (getitem (ref_ports bend_ref) (Str ''W0'')) (\<lambda>pbw.
      let bend_ref' = movey bend_ref (snd (midpoint pbw) + gap + width);
          c3 = update_ref c2 bend_ref bend_ref'
      in
      and_then (absorb c3 wg_ref) (\<lambda>c4.
      and_then (absorb c4 bend_ref') (\<lambda>c5.
      and_then (getitem (ref_ports wg_ref) (Str ''E0'')) (\<lambda>p.
      and_then (add_port c5 (Str ''E0'') p) (\<lambda>c6.
      and_then (getitem (ref_ports bend_ref') (Str ''N0'')) (\<lambda>p.
      and_then (add_port c6 (Str ''N0'') p) (\<lambda>c7.
      and_then (getitem (ref_ports wg_ref) (Str ''W0'')) (\<lambda>p.
      and_then (add_port c7 (Str ''W0'') p) (\<lambda>c8.
      and_then (getitem (ref_ports bend_ref') (Str ''W0'')) (\<lambda>p.
      and_then (add_port c8 (Str ''W1'') p) (\<lambda>c9.
      Inr c9))))))))))))))))))"

definition coupler90circular ::
  "'k component_or_factory \<Rightarrow> real \<Rightarrow> real \<Rightarrow> 'k cross_section_factory \<Rightarrow> 'k
     \<Rightarrow> ('k cross_section_factory \<Rightarrow> real \<Rightarrow> 'k \<Rightarrow> error + component) \<Rightarrow> error + component" where
  "coupler90circular bend gap radius cross_section kwargs straight =
     coupler90 gap radius bend cross_section kwargs straight"

section \<open>components/straight_heater.py\<close>

text \<open>
  \<^verbatim>\<open>straight_heater_connector\<close>: the three assertions, then the two via stacks, the metal
  piece and the port "0". \<^verbatim>\<open>tlm\<close> and \<^verbatim>\<open>line\<close> are imported from files that are not under
  src/ and are arguments here, as is the default of \<^verbatim>\<open>tlm_layers\<close>.
  \<^verbatim>\<open>straight_with_heater\<close>: \<^verbatim>\<open>straight_heater\<close> and \<^verbatim>\<open>connector\<close> are its own factory
  arguments (the connector is called with the heater ports and \<^verbatim>\<open>port_width\<close>);
  \<^verbatim>\<open>auto_rename_ports\<close> is imported from \<^verbatim>\<open>pp.port\<close> and is an argument here.
\<close>

definition straight_heater_connector ::
  "port list \<Rightarrow> layer list \<Rightarrow> real option \<Rightarrow> int option
     \<Rightarrow> (real \<Rightarrow> real \<Rightarrow> layer list \<Rightarrow> 'v list \<Rightarrow> error + component)
     \<Rightarrow> (point \<Rightarrow> point \<Rightarrow> real \<Rightarrow> point list) \<Rightarrow> error + component" where
  "straight_heater_connector heater_ports tlm_layers port_width port_orientation tlm line =
     (let component = Component_new in
      if length heater_ports \<noteq> 2 then Inl AssertionError
      else if orientation (heater_ports ! 0) \<noteq> orientation (heater_ports ! 1)
      then Inl AssertionError
      else
        let angle = orientation (heater_ports ! 0);
            angle = angle mod 360
        in
        if angle \<notin> set [0, 180] then Inl AssertionError
        else
          let dx = 0;
              dy = 0;
              angle_to_dps = [(0, [(- dx, - dy), (- dx, dy)]), (180, [(dx, - dy), (dx, dy)])];
              ports0 = heater_ports;
              hw = width (heater_ports ! 0);
              ports1 = (if angle \<in> set [0, 180]
                        then sort_key (\<lambda>p. snd (midpoint p)) ports0
                        else sort_key (\<lambda>p. fst (midpoint p)) ports0)
          in
          and_then (tlm (1 / 2) (1 / 2) tlm_layers []) (\<lambda>heater_to_metal.
          and_then (getitem angle_to_dps angle) (\<lambda>dps.
          case fold (\<lambda>(port, dp) (component, tlm_positions).
                       let p = midpoint port;
                           tlm_pos = padd p dp;
                           hm = ref_at heater_to_metal tlm_pos
                       in (add component hm, tlm_positions @ [tlm_pos]))
                 (zip ports1 dps) (component, []) of
            (component, tlm_positions) \<Rightarrow>
          let ss = (if angle = 0 then 1 else - 1);
              edge_metal_piece_width = 7;
              x = ss * edge_metal_piece_width / 2
          in
          and_then (last_item tlm_layers) (\<lambda>top_metal_layer.
          and_then (item tlm_positions 0) (\<lambda>t0.
          and_then (item tlm_positions 1) (\<lambda>t1.
          let component = add_polygon component
                (line (padd t0 (x, - hw / 2)) (padd t1 (x, hw / 2)) edge_metal_piece_width)
                top_metal_layer
          in
          (case port_width of
             None \<Rightarrow> Inl TypeError
           | Some w \<Rightarrow>
               add_port_fields component (Str ''0'')
                 (padd (pscale (1 / 2) (psum tlm_positions)) (ss * edge_metal_piece_width / 2, 0))
                 w
                 (case port_orientation of Some a \<Rightarrow> a | None \<Rightarrow> angle)
                 top_metal_layer ''dc'')))))))"

fun add_ports :: "component \<Rightarrow> (port_name \<times> port) list \<Rightarrow> error + component" where
  "add_ports c [] = Inr c"
| "add_ports c ((k, p) # rest) = and_then (add_port c k p) (\<lambda>c'. add_ports c' rest)"

definition straight_with_heater ::
  "real \<Rightarrow> (real \<Rightarrow> 'k \<Rightarrow> error + component) \<Rightarrow> (port list \<Rightarrow> real option \<Rightarrow> error + component)
     \<Rightarrow> real option \<Rightarrow> int \<Rightarrow> int \<Rightarrow> 'k \<Rightarrow> (component \<Rightarrow> component) \<Rightarrow> error + component" where
  "straight_with_heater len straight_heater connector port_width port_orientation_input
       port_orientation_output kwargs auto_rename_ports =
     (let component0 = Component_new in
      and_then (straight_heater len kwargs) (\<lambda>heater.
      case add_ref component0 heater of (component1, wg_heater) \<Rightarrow>
      and_then (getitem (ref_ports wg_heater) (Str ''HBE0'')) (\<lambda>hbe0.
      and_then (getitem (ref_ports wg_heater) (Str ''HTE0'')) (\<lambda>hte0.
      and_then (connector [hbe0, hte0] port_width) (\<lambda>connector1.
      and_then (getitem (ref_ports wg_heater) (Str ''HBW0'')) (\<lambda>hbw0.
      and_then (getitem (ref_ports wg_heater) (Str ''HTW0'')) (\<lambda>htw0.
      and_then (connector [hbw0, htw0] port_width) (\<lambda>connector2.
      case add_ref component1 connector1 of (component2, conn1) \<Rightarrow>
      case add_ref component2 connector2 of (component3, conn2) \<Rightarrow>
      let conn1' = set_xmin conn1 (xmin wg_heater);
          component4 = update_ref component3 conn1 conn1';
          conn2' = set_xmax conn2 (xmax wg_heater);
          component5 = update_ref component4 conn2 conn2'
      in
      and_then (add_ports component5 (ref_ports wg_heater)) (\<lambda>component6.
      and_then (getitem (ref_ports conn1') (Str ''0'')) (\<lambda>p1.
      and_then (add_port component6 (Num 1) p1) (\<lambda>component7.
      and_then (getitem (ref_ports conn2') (Str ''0'')) (\<lambda>p2.
      and_then (add_port component7 (Num 2) p2) (\<lambda>component8.
      and_then (set_orientation component8 (Num 1) port_orientation_input) (\<lambda>component9.
      and_then (set_orientation component9 (Num 2) port_orientation_output) (\<lambda>component10.
      Inr (auto_rename_ports component10))))))))))))))))"

section \<open>Predicates of the statements\<close>

text \<open>
  The port invariant of the spec's data model (orientation in \<open>[0, 360)\<close>, positive
  width), for one port and for all ports of a component; and the three assertions of
  \<^verbatim>\<open>straight_heater_connector\<close> as one predicate.
\<close>

definition port_invariant :: "port \<Rightarrow> bool" where
  "port_invariant p \<longleftrightarrow> 0 \<le> orientation p \<and> orientation p < 360 \<and> 0 < width p"

definition ports_ok :: "component \<Rightarrow> bool" where
  "ports_ok c \<longleftrightarrow> (\<forall>(k, p) \<in> set (ports c). port_invariant p)"

definition heater_ports_ok :: "port list \<Rightarrow> bool" where
  "heater_ports_ok hp \<longleftrightarrow>
     length hp = 2 \<and> orientation (hp ! 0) = orientation (hp ! 1)
     \<and> (orientation (hp ! 0) mod 360 = 0 \<or> orientation (hp ! 0) mod 360 = 180)"

section \<open>The cell cache\<close>

text \<open>
  Modelled from the spec: the \<^verbatim>\<open>@cell\<close> decorator (\<^verbatim>\<open>gdsfactory.cell\<close>, \<^verbatim>\<open>pp.cell\<close>) is
  applied by the factories under src/ but is not among them. Sections 3, 5 and 9 of the
  spec: one table for the process, keyed by the factory's name and its parameter values,
  that only grows; a call whose key is in the table returns the instance stored there, any
  other call builds the component, stores it and returns it. An instance is identified by
  its index in the list of all instances built; the factory is a pure function of its
  parameters.
\<close>

record 'p cache =
  table :: "string \<times> 'p \<Rightarrow> nat option"
  instances :: "component list"

definition cache_new :: "'p cache" where
  "cache_new = \<lparr>table = (\<lambda>k. None), instances = []\<rparr>"

definition cell ::
  "string \<Rightarrow> ('p \<Rightarrow> error + component) \<Rightarrow> 'p \<Rightarrow> 'p cache \<Rightarrow> (error + nat) \<times> 'p cache" where
  "cell fname factory params c =
     (case table c (fname, params) of
        Some i \<Rightarrow> (Inr i, c)
      | None \<Rightarrow>
          (case factory params of
             Inl e \<Rightarrow> (Inl e, c)
           | Inr built \<Rightarrow>
               (Inr (length (instances c)),
                c\<lparr>table := (table c)((fname, params) \<mapsto> length (instances c)),
                  instances := instances c @ [built]\<rparr>)))"

text \<open>A sequence of calls of decorated factories, each with its name and parameters.\<close>

fun calls :: "(string \<times> ('p \<Rightarrow> error + component) \<times> 'p) list \<Rightarrow> 'p cache \<Rightarrow> (error + nat) list" where
  "calls [] c = []"
| "calls ((fname, factory, params) # rest) c =
     (case cell fname factory params c of (r, c') \<Rightarrow> r # calls rest c')"

definition call_key :: "string \<times> ('p \<Rightarrow> error + component) \<times> 'p \<Rightarrow> string \<times> 'p" where
  "call_key call = (fst call, snd (snd call))"

text \<open>
  What the table and the instance list keep true between calls: every stored index is
  that of an instance built, and no index is stored under two keys.
\<close>

definition cache_inv :: "'p cache \<Rightarrow> bool" where
  "cache_inv c \<longleftrightarrow>
     (\<forall>k i. table c k = Some i \<longrightarrow> i < length (instances c)) \<and>
     (\<forall>k k' i. table c k = Some i \<longrightarrow> table c k' = Some i \<longrightarrow> k = k')"

section \<open>Test data\<close>

text \<open>
  A bend with the two ports of a 180 degree bend of radius 37.5 and two port lists, as in
  \<^verbatim>\<open>test_get_routes_bend180\<close> (pads at a pitch of 150); the factories return that bend.
\<close>

definition test_bend :: component where
  "test_bend = Component [] []
     [(Str ''W0'', \<lparr>name = Str ''W0'', midpoint = (0, 0), width = 1 / 2, orientation = 180,
                    layer = (1, 0), port_type = ''optical''\<rparr>),
      (Str ''W1'', \<lparr>name = Str ''W1'', midpoint = (0, 75), width = 1 / 2, orientation = 180,
                    layer = (1, 0), port_type = ''optical''\<rparr>)]
     (Some 120)"

definition test_ports :: "port list" where
  "test_ports =
     [\<lparr>name = Str ''S0'', midpoint = (1000, 0), width = 1 / 2, orientation = 0,
       layer = (1, 0), port_type = ''optical''\<rparr>,
      \<lparr>name = Str ''S1'', midpoint = (1000, 150), width = 1 / 2, orientation = 0,
       layer = (1, 0), port_type = ''optical''\<rparr>]"

definition test_factory :: "int \<Rightarrow> unit \<Rightarrow> unit \<Rightarrow> unit \<Rightarrow> (error + component) \<times> unit" where
  "test_factory angle cross_section kwargs s = (Inr test_bend, s)"

definition test_ports_near :: "port list" where
  "test_ports_near =
     [\<lparr>name = Str ''S0'', midpoint = (0, 0), width = 1 / 2, orientation = 90,
       layer = (1, 0), port_type = ''optical''\<rparr>,
      \<lparr>name = Str ''S1'', midpoint = (10, 0), width = 1 / 2, orientation = 90,
       layer = (1, 0), port_type = ''optical''\<rparr>]"

definition test_counting_factory ::
  "int \<Rightarrow> unit \<Rightarrow> unit \<Rightarrow> nat \<Rightarrow> (error + component) \<times> nat" where
  "test_counting_factory angle cross_section kwargs n = (Inr test_bend, Suc n)"

text \<open>
  Calls of the decorated \<^verbatim>\<open>triangle\<close> (all on layer (1, 0)), and a parent holding one
  reference to a rectangle.
\<close>

definition test_triangle :: "real \<times> real \<times> real \<Rightarrow> error + component" where
  "test_triangle = (\<lambda>(x, xtop, y). triangle x xtop y (1, 0))"

definition test_calls :: "(string \<times> (real \<times> real \<times> real \<Rightarrow> error + component) \<times> real \<times> real \<times> real) list" where
  "test_calls =
     [(''triangle'', test_triangle, (10, 0, 20)),
      (''triangle'', test_triangle, (10, 5, 20)),
      (''triangle'', test_triangle, (10, 0, 20))]"

definition test_child :: component where
  "test_child = Component [([(0, 0), (10, 0), (10, 1), (0, 1)], (1, 0))] [] [] None"

definition test_parent :: component where
  "test_parent = Component [] [ComponentReference test_child (5, 2) 0 False] [] None"

text \<open>
  Doubles for \<^verbatim>\<open>coupler90\<close>: a cross-section of width 0.5, a straight of the given length
  and a 90 degree bend whose port W0 lies at height \<open>y0\<close>.
\<close>

definition test_cross_section :: "unit cross_section_factory" where
  "test_cross_section radius kwargs = Inr \<lparr>info = [(''width'', 1 / 2)]\<rparr>"

definition test_straight :: "unit cross_section_factory \<Rightarrow> real \<Rightarrow> unit \<Rightarrow> error + component" where
  "test_straight cross_section len kwargs =
     Inr (Component [([(0, - 1 / 4), (len, - 1 / 4), (len, 1 / 4), (0, 1 / 4)], (1, 0))] []
            [(Str ''W0'', \<lparr>name = Str ''W0'', midpoint = (0, 0), width = 1 / 2, orientation = 180,
                           layer = (1, 0), port_type = ''optical''\<rparr>),
             (Str ''E0'', \<lparr>name = Str ''E0'', midpoint = (len, 0), width = 1 / 2, orientation = 0,
                           layer = (1, 0), port_type = ''optical''\<rparr>)]
            (Some len))"

definition test_bend90 :: "real \<Rightarrow> component" where
  "test_bend90 y0 =
     Component [([(0, y0), (10, y0 + 10), (0, y0 + 10)], (1, 0))] []
       [(Str ''W0'', \<lparr>name = Str ''W0'', midpoint = (0, y0), width = 1 / 2, orientation = 180,
                      layer = (1, 0), port_type = ''optical''\<rparr>),
        (Str ''N0'', \<lparr>name = Str ''N0'', midpoint = (10, y0 + 10), width = 1 / 2, orientation = 90,
                      layer = (1, 0), port_type = ''optical''\<rparr>)]
       (Some 16)"

text \<open>
  Doubles for \<^verbatim>\<open>straight_with_heater\<close>: a heater with the six ports the function reads,
  and the connector of the source itself, with a square via stack and a rectangle for
  \<^verbatim>\<open>line\<close>.
\<close>

definition test_layers :: "layer list" where
  "test_layers = [(40, 0), (41, 0)]"

definition test_tlm :: "real \<Rightarrow> real \<Rightarrow> layer list \<Rightarrow> unit list \<Rightarrow> error + component" where
  "test_tlm w h layers vias =
     Inr (Component [([(- w / 2, - h / 2), (w / 2, - h / 2), (w / 2, h / 2), (- w / 2, h / 2)],
                      (41, 0))] [] [] None)"

definition test_line :: "point \<Rightarrow> point \<Rightarrow> real \<Rightarrow> point list" where
  "test_line p q w = [(fst p - w / 2, snd p), (fst p + w / 2, snd p),
                      (fst q + w / 2, snd q), (fst q - w / 2, snd q)]"

definition test_port :: "string \<Rightarrow> point \<Rightarrow> int \<Rightarrow> string \<Rightarrow> port_name \<times> port" where
  "test_port k m a t =
     (Str k, \<lparr>name = Str k, midpoint = m, width = 1 / 2, orientation = a, layer = (1, 0),
              port_type = t\<rparr>)"

definition test_heater :: "real \<Rightarrow> unit \<Rightarrow> error + component" where
  "test_heater len kwargs =
     Inr (Component [([(0, - 1 / 4), (len, - 1 / 4), (len, 1 / 4), (0, 1 / 4)], (1, 0))] []
            [test_port ''W0'' (0, 0) 180 ''optical'',
             test_port ''E0'' (len, 0) 0 ''optical'',
             test_port ''HTW0'' (0, 17 / 10) 180 ''heater'',
             test_port ''HTE0'' (len, 17 / 10) 0 ''heater'',
             test_port ''HBW0'' (0, - 17 / 10) 180 ''heater'',
             test_port ''HBE0'' (len, - 17 / 10) 0 ''heater'']
            None)"

definition test_connector :: "port list \<Rightarrow> real option \<Rightarrow> error + component" where
  "test_connector heater_ports port_width =
     straight_heater_connector heater_ports test_layers port_width None test_tlm test_line"

section \<open>Auxiliary facts\<close>

subsection \<open>Python helpers\<close>

lemma sequence_map_Inr:
  "(\<And>x. x \<in> set xs \<Longrightarrow> f x = Inr (g x)) \<Longrightarrow> sequence (map f xs) = Inr (map g xs)"
  by (induction xs) auto

lemma update_fresh: "k \<notin> fst ` set al \<Longrightarrow> AList.update k v al = al @ [(k, v)]"
  by (induction al) auto

lemma fold_update_distinct:
  "distinct (map fst (acc @ items)) \<Longrightarrow>
   fold (\<lambda>(k, v) d. AList.update k v d) items acc = acc @ items"
proof (induction items arbitrary: acc)
  case Nil
  then show ?case by simp
next
  case (Cons a items)
  obtain k v where a: "a = (k, v)" by (cases a)
  from Cons.prems a have fresh: "k \<notin> fst ` set acc" by auto
  from Cons.prems a have "distinct (map fst ((acc @ [(k, v)]) @ items))" by simp
  then have "fold (\<lambda>(k, v) d. AList.update k v d) items (acc @ [(k, v)]) = (acc @ [(k, v)]) @ items"
    by (rule Cons.IH)
  with fresh a show ?case by (simp add: update_fresh)
qed

lemma dict_of_distinct: "distinct (map fst items) \<Longrightarrow> dict_of items = items"
  using fold_update_distinct [of "[]" items] by (simp add: dict_of_def)

lemma digit_cases:
  "(d::nat) < 10 \<Longrightarrow> d = 0 \<or> d = 1 \<or> d = 2 \<or> d = 3 \<or> d = 4 \<or> d = 5 \<or> d = 6
      \<or> d = 7 \<or> d = 8 \<or> d = 9"
  by presburger

lemma digit_value: "d < 10 \<Longrightarrow> digit_value (digit d) = d"
  by (drule digit_cases, elim disjE) (simp_all add: digit_def digit_value_def)

lemma digits_value_py_str: "digits_value (py_str n) = n"
proof (induction n rule: py_str.induct)
  case (1 n)
  show ?case
  proof (cases "n < 10")
    case True
    then show ?thesis by (subst py_str.simps) (simp add: digits_value_def digit_value)
  next
    case False
    with 1 have "digits_value (py_str (n div 10)) = n div 10" by simp
    with False show ?thesis
      by (subst py_str.simps) (simp add: digits_value_def digit_value)
  qed
qed

lemma inj_py_str: "inj py_str"
  by (rule inj_on_inverseI [where g = digits_value]) (rule digits_value_py_str)

lemma map_of_ref_ports:
  "map_of (ref_ports r) k = map_option (transform_port r) (map_of (ports (parent r)) k)"
  unfolding ref_ports_def by (induction "ports (parent r)") (auto simp: map_of_map)

subsection \<open>References and connecting\<close>

lemma rotate_point_zero: "rotate_point 0 p = p"
  by (simp add: rotate_point_def)

lemma parent_ref: "parent (ref c) = c"
  by (simp add: ref_def)

lemma transform_port_ref:
  "transform_port (ref c) p = p\<lparr>orientation := orientation p mod 360\<rparr>"
  by (simp add: transform_port_def transform_point_def ref_def rotate_point_zero)

lemma connect_ref:
  assumes "map_of (ports c) k = Some w"
  shows "connect (ref c) k d =
    Inr (connect_port (ref c) (transform_port (ref c) w) d)"
  using assms by (simp add: connect_def map_of_ref_ports transform_port_ref parent_ref)

lemma getitem_ref_ports:
  "map_of (ports (parent r)) k = Some w \<Longrightarrow> getitem (ref_ports r) k = Inr (transform_port r w)"
  by (simp add: getitem_def map_of_ref_ports)

lemma index_keys:
  "map fst (map (\<lambda>(i, p). (Str (py_str i), g p)) (enumerate 0 xs)) = map (\<lambda>i. Str (py_str i)) [0..<length xs]"
  by (induction xs rule: rev_induct) (simp_all add: enumerate_append_eq)

lemma distinct_index_keys:
  "distinct (map fst (map (\<lambda>(i, p). (Str (py_str i), g p)) (enumerate 0 xs)))"
  unfolding index_keys using inj_py_str by (simp add: distinct_map inj_on_def inj_def)

lemma connect_ref_midpoint:
  "midpoint (transform_port (connect_port (ref c) (transform_port (ref c) w) d) w) = midpoint d"
  unfolding transform_port_ref
  unfolding connect_port_def transform_port_def transform_point_def rotate_ref_def move_def ref_def Let_def rotate_point_def
  by (simp add: prod_eq_iff algebra_simps)

lemma antiparallel_mod: "((a::int) + (180 + b - a mod 360)) mod 360 = (b + 180) mod 360"
proof -
  have "a + (180 + b - a mod 360) = (b + 180) + (a div 360) * 360"
    using div_mult_mod_eq [of a 360] by linarith
  then show ?thesis by (simp only: mod_mult_self1)
qed

lemma connect_ref_orientation:
  "orientation (transform_port (connect_port (ref c) (transform_port (ref c) w) d) w) = (orientation d + 180) mod 360"
  unfolding transform_port_ref
  unfolding connect_port_def transform_port_def rotate_ref_def move_def ref_def Let_def
  by (simp add: antiparallel_mod)

lemma parent_connect_port: "parent (connect_port r p d) = parent r"
  by (simp add: connect_port_def rotate_ref_def move_def Let_def)

lemma map_enumerate_snd: "map (\<lambda>(i, r). f r) (enumerate n xs) = map f xs"
  by (induction xs arbitrary: n) auto

lemma map_enumerate_map:
  "map (\<lambda>(i, p). g i p) (enumerate n (map h xs)) = map (\<lambda>(i, p). g i (h p)) (enumerate n xs)"
  by (induction xs arbitrary: n) auto

lemma get_routes_bend180_result:
  assumes fac: "bend_factory 180 xs kw s = (Inr bend, s')"
    and w0: "map_of (ports bend) (Str ''W0'') = Some w0"
    and w1: "map_of (ports bend) (Str ''W1'') = Some w1"
    and len: "length_c bend = Some l"
  shows "get_routes_bend180 pa bend_factory xs kw s =
    (Inr \<lparr>routes_references =
            map (connect_port (ref bend) (transform_port (ref bend) w0)) (ports_list pa),
          routes_ports =
            map (\<lambda>(i, p). (Str (py_str i),
                   transform_port (connect_port (ref bend) (transform_port (ref bend) w0) p) w1))
              (enumerate 0 (ports_list pa)),
          lengths = replicate (length (ports_list pa)) l\<rparr>, s')"
proof -
  let ?ps = "ports_list pa"
  let ?place = "connect_port (ref bend) (transform_port (ref bend) w0)"
  have conn: "sequence (map (\<lambda>(port, r). connect r (Str ''W0'') port) (zip ?ps (map (\<lambda>port. ref bend) ?ps)))
      = Inr (map ?place ?ps)"
  proof -
    have "map (\<lambda>(port, r). connect r (Str ''W0'') port) (zip ?ps (map (\<lambda>port. ref bend) ?ps))
        = map (\<lambda>port. connect (ref bend) (Str ''W0'') port) ?ps"
      by (simp add: zip_map2 zip_same_conv_map)
    also have "sequence \<dots> = Inr (map ?place ?ps)"
      by (rule sequence_map_Inr) (simp add: connect_ref [OF w0])
    finally show ?thesis .
  qed
  have outs: "sequence (map (\<lambda>(i, r). getitem (ref_ports r) (Str ''W1'')) (enumerate 0 (map ?place ?ps)))
      = Inr (map (\<lambda>p. transform_port (?place p) w1) ?ps)"
  proof -
    have "map (\<lambda>(i, r). getitem (ref_ports r) (Str ''W1'')) (enumerate 0 (map ?place ?ps))
        = map (\<lambda>p. getitem (ref_ports (?place p)) (Str ''W1'')) ?ps"
      by (simp add: map_enumerate_snd comp_def)
    also have "sequence \<dots> = Inr (map (\<lambda>p. transform_port (?place p) w1) ?ps)"
      by (rule sequence_map_Inr) (simp add: getitem_ref_ports parent_connect_port parent_ref w1)
    finally show ?thesis .
  qed
  have dict: "dict_of (map (\<lambda>(i, p). (Str (py_str i), p)) (enumerate 0 (map (\<lambda>p. transform_port (?place p) w1) ?ps)))
      = map (\<lambda>(i, p). (Str (py_str i), transform_port (?place p) w1)) (enumerate 0 ?ps)"
    unfolding map_enumerate_map by (rule dict_of_distinct) (rule distinct_index_keys)
  show ?thesis
    unfolding get_routes_bend180_def Let_def fac
    by (simp add: conn outs dict len)
qed

lemma index_values:
  "map snd (map (\<lambda>(i, p). (f i, g p)) (enumerate n xs)) = map g xs"
  by (induction xs arbitrary: n) auto

lemma py_str_0: "py_str 0 = ''0''" 
  by (simp add: py_str.simps digit_def)

lemma py_str_1: "py_str (Suc 0) = ''1''"
  by (simp add: py_str.simps digit_def)

lemma test_ports_list: "ports_list (PortList test_ports) = test_ports"
  by (simp add: ports_list_def)

lemma length_test_ports: "length test_ports = 2"
  by (simp add: test_ports_def)

lemma test_factory_180: "test_factory 180 () () () = (Inr test_bend, ())"
  by (simp add: test_factory_def)

lemma test_bend_W0: "map_of (ports test_bend) (Str ''W0'') =
    Some \<lparr>name = Str ''W0'', midpoint = (0, 0), width = 1 / 2, orientation = 180,
                    layer = (1, 0), port_type = ''optical''\<rparr>"
  by (simp add: test_bend_def)

lemma test_bend_W1: "map_of (ports test_bend) (Str ''W1'') =
    Some \<lparr>name = Str ''W1'', midpoint = (0, 75), width = 1 / 2, orientation = 180,
                    layer = (1, 0), port_type = ''optical''\<rparr>"
  by (simp add: test_bend_def)

lemma test_bend_length: "length_c test_bend = Some 120"
  by (simp add: test_bend_def)

section \<open>Properties of get_routes_bend180\<close>

text \<open>
  Claim C1. For a non-empty collection of input ports and a bend with the ports W0 and W1
  and a length, \<^verbatim>\<open>get_routes_bend180\<close> calls the factory with angle 180 and returns a
  \<^verbatim>\<open>Routes\<close> with one reference, one output port and one length per input port. The
  \<open>i\<close>-th reference is a fresh reference of the bend connected at W0 to the \<open>i\<close>-th input
  port: its W0 lies on that port's midpoint and points the opposite way. The \<open>i\<close>-th
  output port is that reference's W1, stored under the key \<open>str(i)\<close>.
\<close>

theorem get_routes_bend180_one_bend_per_port:
  assumes nonempty: "ports_list pa \<noteq> []"
    and fac: "bend_factory 180 xs kw s = (Inr bend, s')"
    and w0: "map_of (ports bend) (Str ''W0'') = Some w0"
    and w1: "map_of (ports bend) (Str ''W1'') = Some w1"
    and len: "length_c bend = Some l"
  shows "\<exists>r. get_routes_bend180 pa bend_factory xs kw s = (Inr r, s')
    \<and> length (routes_references r) = length (ports_list pa)
    \<and> length (routes_ports r) = length (ports_list pa)
    \<and> length (lengths r) = length (ports_list pa)
    \<and> (\<forall>i<length (ports_list pa).
          connect (ref bend) (Str ''W0'') (ports_list pa ! i) = Inr (routes_references r ! i)
        \<and> parent (routes_references r ! i) = bend
        \<and> (\<exists>p. getitem (ref_ports (routes_references r ! i)) (Str ''W0'') = Inr p
              \<and> midpoint p = midpoint (ports_list pa ! i)
              \<and> orientation p = (orientation (ports_list pa ! i) + 180) mod 360)
        \<and> (\<exists>q. getitem (ref_ports (routes_references r ! i)) (Str ''W1'') = Inr q
              \<and> routes_ports r ! i = (Str (py_str i), q)))"
proof -
  let ?ps = "ports_list pa"
  let ?place = "connect_port (ref bend) (transform_port (ref bend) w0)"
  define r where "r = \<lparr>routes_references = map ?place ?ps,
            routes_ports = map (\<lambda>(i, p). (Str (py_str i), transform_port (?place p) w1)) (enumerate 0 ?ps),
            lengths = replicate (length ?ps) l\<rparr>"
  have res: "get_routes_bend180 pa bend_factory xs kw s = (Inr r, s')"
    unfolding r_def using fac w0 w1 len by (rule get_routes_bend180_result)
  have refs: "routes_references r = map ?place ?ps"
    and outs: "routes_ports r = map (\<lambda>(i, p). (Str (py_str i), transform_port (?place p) w1)) (enumerate 0 ?ps)"
    and lens: "lengths r = replicate (length ?ps) l"
    by (simp_all add: r_def)
  have n1: "length (routes_references r) = length ?ps" by (simp add: refs)
  have n2: "length (routes_ports r) = length ?ps" by (simp add: outs)
  have n3: "length (lengths r) = length ?ps" by (simp add: lens)
  have each: "connect (ref bend) (Str ''W0'') (?ps ! i) = Inr (routes_references r ! i)
        \<and> parent (routes_references r ! i) = bend
        \<and> (\<exists>p. getitem (ref_ports (routes_references r ! i)) (Str ''W0'') = Inr p
              \<and> midpoint p = midpoint (?ps ! i)
              \<and> orientation p = (orientation (?ps ! i) + 180) mod 360)
        \<and> (\<exists>q. getitem (ref_ports (routes_references r ! i)) (Str ''W1'') = Inr q
              \<and> routes_ports r ! i = (Str (py_str i), q))" if i: "i < length ?ps" for i
  proof -
    have ri: "routes_references r ! i = ?place (?ps ! i)"
      using i by (simp add: refs)
    have par: "parent (?place (?ps ! i)) = bend"
      by (simp add: parent_connect_port parent_ref)
    have a: "connect (ref bend) (Str ''W0'') (?ps ! i) = Inr (routes_references r ! i)"
      unfolding ri by (rule connect_ref [OF w0])
    have b: "parent (routes_references r ! i) = bend"
      unfolding ri by (rule par)
    have c: "getitem (ref_ports (routes_references r ! i)) (Str ''W0'') = Inr (transform_port (?place (?ps ! i)) w0)"
      unfolding ri by (rule getitem_ref_ports) (simp only: par w0)
    have d: "getitem (ref_ports (routes_references r ! i)) (Str ''W1'') = Inr (transform_port (?place (?ps ! i)) w1)"
      unfolding ri by (rule getitem_ref_ports) (simp only: par w1)
    have e: "routes_ports r ! i = (Str (py_str i), transform_port (?place (?ps ! i)) w1)"
      using i by (simp add: outs nth_enumerate_eq)
    have m: "midpoint (transform_port (?place (?ps ! i)) w0) = midpoint (?ps ! i)"
      by (rule connect_ref_midpoint)
    have o: "orientation (transform_port (?place (?ps ! i)) w0) = (orientation (?ps ! i) + 180) mod 360"
      by (rule connect_ref_orientation)
    from c m o have c': "\<exists>p. getitem (ref_ports (routes_references r ! i)) (Str ''W0'') = Inr p
              \<and> midpoint p = midpoint (?ps ! i)
              \<and> orientation p = (orientation (?ps ! i) + 180) mod 360"
      by (intro exI conjI)
    from d e have d': "\<exists>q. getitem (ref_ports (routes_references r ! i)) (Str ''W1'') = Inr q
              \<and> routes_ports r ! i = (Str (py_str i), q)"
      by (intro exI conjI)
    from a b c' d' show ?thesis by (intro conjI)
  qed
  from each have all: "\<forall>i<length ?ps.
          connect (ref bend) (Str ''W0'') (?ps ! i) = Inr (routes_references r ! i)
        \<and> parent (routes_references r ! i) = bend
        \<and> (\<exists>p. getitem (ref_ports (routes_references r ! i)) (Str ''W0'') = Inr p
              \<and> midpoint p = midpoint (?ps ! i)
              \<and> orientation p = (orientation (?ps ! i) + 180) mod 360)
        \<and> (\<exists>q. getitem (ref_ports (routes_references r ! i)) (Str ''W1'') = Inr q
              \<and> routes_ports r ! i = (Str (py_str i), q))"
    by (intro allI impI)
  from res n1 n2 n3 all show ?thesis
    by (intro exI [of _ r] conjI)
qed

theorem get_routes_bend180_one_bend_per_port_witness:
  "\<exists>r. get_routes_bend180 (PortList test_ports) test_factory () () () = (Inr r, ())
     \<and> length (routes_references r) = 2 \<and> length (routes_ports r) = 2 \<and> length (lengths r) = 2
     \<and> parent (routes_references r ! 0) = test_bend \<and> parent (routes_references r ! 1) = test_bend
     \<and> fst (routes_ports r ! 0) = Str ''0'' \<and> fst (routes_ports r ! 1) = Str ''1''"
proof -
  have ne: "ports_list (PortList test_ports) \<noteq> []"
    unfolding test_ports_list by (simp add: test_ports_def)
  from get_routes_bend180_one_bend_per_port
         [where bend_factory = test_factory and xs = "()" and kw = "()" and s = "()",
          OF ne test_factory_180 test_bend_W0 test_bend_W1 test_bend_length]
  obtain r where res: "get_routes_bend180 (PortList test_ports) test_factory () () () = (Inr r, ())"
    and n1: "length (routes_references r) = 2" and n2: "length (routes_ports r) = 2"
    and n3: "length (lengths r) = 2"
    and all: "\<forall>i<2. connect (ref test_bend) (Str ''W0'') (test_ports ! i) = Inr (routes_references r ! i)
        \<and> parent (routes_references r ! i) = test_bend
        \<and> (\<exists>p. getitem (ref_ports (routes_references r ! i)) (Str ''W0'') = Inr p
              \<and> midpoint p = midpoint (test_ports ! i)
              \<and> orientation p = (orientation (test_ports ! i) + 180) mod 360)
        \<and> (\<exists>q. getitem (ref_ports (routes_references r ! i)) (Str ''W1'') = Inr q
              \<and> routes_ports r ! i = (Str (py_str i), q))"
    unfolding test_ports_list length_test_ports by (elim exE conjE)
  from all [rule_format, of 0] have a0: "parent (routes_references r ! 0) = test_bend"
    and b0: "fst (routes_ports r ! 0) = Str ''0''"
    by (auto simp: py_str_0)
  from all [rule_format, of 1] have a1: "parent (routes_references r ! 1) = test_bend"
    and b1: "fst (routes_ports r ! 1) = Str ''1''"
    by (auto simp: py_str_1)
  from res n1 n2 n3 a0 a1 b0 b1 show ?thesis
    by (intro exI [of _ r] conjI)
qed

text \<open>
  Claim C2. Every entry of \<^verbatim>\<open>lengths\<close> is the bend's own \<^verbatim>\<open>length\<close>: for any two
  collections of input ports routed with the same bend, both lists hold only that value,
  once per input port, wherever the ports are and however they are spaced.
\<close>

theorem get_routes_bend180_lengths:
  assumes fac: "bend_factory 180 xs kw s = (Inr bend, s')"
    and w0: "map_of (ports bend) (Str ''W0'') = Some w0"
    and w1: "map_of (ports bend) (Str ''W1'') = Some w1"
    and len: "length_c bend = Some l"
  shows "\<exists>r r'. get_routes_bend180 pa bend_factory xs kw s = (Inr r, s')
      \<and> get_routes_bend180 pa' bend_factory xs kw s = (Inr r', s')
      \<and> lengths r = replicate (length (ports_list pa)) l
      \<and> lengths r' = replicate (length (ports_list pa')) l
      \<and> (\<forall>x \<in> set (lengths r) \<union> set (lengths r'). x = l)"
proof -
  from fac w0 w1 len obtain r where r: "get_routes_bend180 pa bend_factory xs kw s = (Inr r, s')"
    and lr: "lengths r = replicate (length (ports_list pa)) l"
    by (simp add: get_routes_bend180_result)
  from fac w0 w1 len obtain r' where r': "get_routes_bend180 pa' bend_factory xs kw s = (Inr r', s')"
    and lr': "lengths r' = replicate (length (ports_list pa')) l"
    by (simp add: get_routes_bend180_result)
  have "\<forall>x \<in> set (lengths r) \<union> set (lengths r'). x = l"
    unfolding lr lr' by auto
  with r r' lr lr' show ?thesis by (intro exI conjI)
qed

theorem get_routes_bend180_lengths_witness:
  "\<exists>r r'. get_routes_bend180 (PortList test_ports) test_factory () () () = (Inr r, ())
      \<and> get_routes_bend180 (PortList test_ports_near) test_factory () () () = (Inr r', ())
      \<and> lengths r = [120, 120] \<and> lengths r' = [120, 120]"
proof -
  have near: "ports_list (PortList test_ports_near) = test_ports_near"
    by (simp add: ports_list_def)
  have n: "length test_ports_near = 2"
    by (simp add: test_ports_near_def)
  from get_routes_bend180_lengths
         [where bend_factory = test_factory and xs = "()" and kw = "()" and s = "()"
            and pa = "PortList test_ports" and pa' = "PortList test_ports_near",
          OF test_factory_180 test_bend_W0 test_bend_W1 test_bend_length]
  obtain r r' where "get_routes_bend180 (PortList test_ports) test_factory () () () = (Inr r, ())"
    and "get_routes_bend180 (PortList test_ports_near) test_factory () () () = (Inr r', ())"
    and "lengths r = replicate 2 120" and "lengths r' = replicate 2 120"
    unfolding test_ports_list near length_test_ports n by (elim exE conjE)
  moreover have "replicate 2 (120::real) = [120, 120]"
    by (simp add: numeral_2_eq_2)
  ultimately show ?thesis by (intro exI [of _ r] exI [of _ r'] conjI) simp_all
qed

text \<open>
  Claim C3. If the factory returns the same bend at both calls, two calls of
  \<^verbatim>\<open>get_routes_bend180\<close> on the same ports return the same \<^verbatim>\<open>Routes\<close>, whatever the
  factory's own state was. The keys of the output-port dictionary are \<open>"0", ..., "n-1"\<close> in
  this order, the \<open>i\<close>-th value belongs to the \<open>i\<close>-th input port, and a dictionary of
  ports is routed as the list of its values in insertion order.
\<close>

theorem get_routes_bend180_deterministic:
  assumes first: "bend_factory 180 xs kw s = (Inr bend, s1)"
    and second: "bend_factory 180 xs kw t = (Inr bend, t1)"
    and w0: "map_of (ports bend) (Str ''W0'') = Some w0"
    and w1: "map_of (ports bend) (Str ''W1'') = Some w1"
    and len: "length_c bend = Some l"
  shows "\<exists>r. get_routes_bend180 pa bend_factory xs kw s = (Inr r, s1)
      \<and> get_routes_bend180 pa bend_factory xs kw t = (Inr r, t1)
      \<and> map fst (routes_ports r) = map (\<lambda>i. Str (py_str i)) [0..<length (ports_list pa)]
      \<and> map snd (routes_ports r) =
          map (\<lambda>p. transform_port (connect_port (ref bend) (transform_port (ref bend) w0) p) w1)
            (ports_list pa)
      \<and> lengths r = replicate (length (ports_list pa)) l
      \<and> get_routes_bend180 (PortDict d) bend_factory xs kw s =
          get_routes_bend180 (PortList (map snd d)) bend_factory xs kw s"
proof -
  let ?place = "connect_port (ref bend) (transform_port (ref bend) w0)"
  define r where "r = \<lparr>routes_references = map ?place (ports_list pa),
      routes_ports = map (\<lambda>(i, p). (Str (py_str i), transform_port (?place p) w1))
                       (enumerate 0 (ports_list pa)),
      lengths = replicate (length (ports_list pa)) l\<rparr>"
  have a: "get_routes_bend180 pa bend_factory xs kw s = (Inr r, s1)"
    unfolding r_def using first w0 w1 len by (rule get_routes_bend180_result)
  have b: "get_routes_bend180 pa bend_factory xs kw t = (Inr r, t1)"
    unfolding r_def using second w0 w1 len by (rule get_routes_bend180_result)
  have keys: "map fst (routes_ports r) = map (\<lambda>i. Str (py_str i)) [0..<length (ports_list pa)]"
    by (simp only: r_def Routes.simps index_keys)
  have vals: "map snd (routes_ports r) = map (\<lambda>p. transform_port (?place p) w1) (ports_list pa)"
    by (simp only: r_def Routes.simps index_values)
  have lens: "lengths r = replicate (length (ports_list pa)) l"
    by (simp add: r_def)
  have dict: "get_routes_bend180 (PortDict d) bend_factory xs kw s =
      get_routes_bend180 (PortList (map snd d)) bend_factory xs kw s"
    by (simp add: get_routes_bend180_def ports_list_def)
  from a b keys vals lens dict show ?thesis by (intro exI conjI)
qed

theorem get_routes_bend180_deterministic_witness:
  "\<exists>r. get_routes_bend180 (PortList test_ports) test_counting_factory () () 0 = (Inr r, 1)
      \<and> get_routes_bend180 (PortList test_ports) test_counting_factory () () 1 = (Inr r, 2)
      \<and> map fst (routes_ports r) = [Str ''0'', Str ''1'']
      \<and> lengths r = [120, 120]"
proof -
  have f0: "test_counting_factory 180 () () 0 = (Inr test_bend, 1)"
    and f1: "test_counting_factory 180 () () 1 = (Inr test_bend, 2)"
    by (simp_all add: test_counting_factory_def)
  from get_routes_bend180_deterministic
         [where bend_factory = test_counting_factory and xs = "()" and kw = "()"
            and pa = "PortList test_ports" and d = "[]",
          OF f0 f1 test_bend_W0 test_bend_W1 test_bend_length]
  obtain r where "get_routes_bend180 (PortList test_ports) test_counting_factory () () 0 = (Inr r, 1)"
    and "get_routes_bend180 (PortList test_ports) test_counting_factory () () 1 = (Inr r, 2)"
    and "map fst (routes_ports r) = map (\<lambda>i. Str (py_str i)) [0..<2]"
    and "lengths r = replicate 2 120"
    unfolding test_ports_list length_test_ports by blast
  moreover have "replicate 2 (120::real) = [120, 120]"
    by (simp add: numeral_2_eq_2)
  moreover have "map (\<lambda>i. Str (py_str i)) [0..<2] = [Str ''0'', Str ''1'']"
    by (simp add: upt_rec numeral_2_eq_2 py_str_0 py_str_1)
  ultimately show ?thesis by (intro exI [of _ r] conjI) simp_all
qed

section \<open>Properties of triangle and fiber_array\<close>

text \<open>
  Claim C6, as amended. \<^verbatim>\<open>triangle\<close> validates none of its parameters: for every \<open>x\<close>,
  \<open>xtop\<close> and \<open>y\<close>, negative ones included, it returns a component whose only geometry is
  the polygon \<open>(0,0), (x,0), (xtop,y), (0,y)\<close> on the given layer, and never an error. The
  area of that polygon is \<open>|y (x + xtop)| / 2\<close>, so it is zero when \<open>y = 0\<close> or
  \<open>x + xtop = 0\<close>. \<^verbatim>\<open>fiber_array\<close> with \<open>n \<le> 0\<close> returns the empty component whatever its
  pitch and diameters are.
\<close>

theorem no_parameter_validation:
  "triangle x xtop y l = Inr (Component [([(0, 0), (x, 0), (xtop, y), (0, y)], l)] [] [] None)
   \<and> polygon_area [(0, 0), (x, 0), (xtop, y), (0, y)] = \<bar>y * (x + xtop)\<bar> / 2
   \<and> (n \<le> 0 \<longrightarrow>
        fiber_array n pitch core_diameter cladding_diameter layer_core layer_cladding circle
          port_defaults = Inr (Component [] [] [] None))"
  by (simp add: triangle_def Component_new_def add_polygon_def polygon_area_def algebra_simps
      fiber_array_def)

theorem no_parameter_validation_witness:
  "triangle (- 10) 5 20 (1, 0) =
     Inr (Component [([(0, 0), (- 10, 0), (5, 20), (0, 20)], (1, 0))] [] [] None)
   \<and> polygon_area [(0, 0), (- 10, 0), (5, 20), (0, 20)] = 50
   \<and> fiber_array 0 127 (- 10) (- 125) (1, 0) (111, 0) (\<lambda>radius l. Inl ValueError)
        ((0, 0), (1, 0), ''optical'') = Inr (Component [] [] [] None)"
  using no_parameter_validation [of "- 10" 5 20 "(1, 0)" 0 127 "- 10" "- 125" "(1, 0)" "(111, 0)"
      "\<lambda>radius l. Inl ValueError" "((0, 0), (1, 0), ''optical'')"]
  by simp

text \<open>
  Claim C6 as stated fails: with the negative base \<open>x = -10\<close> (and \<open>y = 0\<close>) \<^verbatim>\<open>triangle\<close>
  returns a component, not an \<^verbatim>\<open>InvalidParameterError\<close>, and its polygon has area zero.
\<close>

theorem negative_base_counterexample:
  "triangle (- 10) 0 0 (1, 0) =
     Inr (Component [([(0, 0), (- 10, 0), (0, 0), (0, 0)], (1, 0))] [] [] None)
   \<and> polygon_area [(0, 0), (- 10, 0), (0, 0), (0, 0)] = 0
   \<and> triangle (- 10) 0 0 (1, 0) \<noteq> Inl InvalidParameterError"
  by (simp add: triangle_def Component_new_def add_polygon_def polygon_area_def)

section \<open>Absorbing a reference\<close>

lemma flatten_eq: "flatten c = polygons c @ concat (map get_polygons (references c))"
  by (cases c) simp

lemma mset_concat_remove1:
  "r \<in> set rs \<Longrightarrow> mset (concat (map f (remove1 r rs))) + mset (f r) = mset (concat (map f rs))"
  by (induction rs) auto

text \<open>
  Claim C4. Absorbing a reference of a component moves that reference's rendering (the
  child's flattened polygons under the reference's transform) into the component's own
  polygons, point for point, and removes the reference; the flattened polygons of the
  component are the same before and after, as a multiset and as a set.
\<close>

theorem absorb_preserves_geometry:
  assumes "r \<in> set (references c)"
  shows "\<exists>c'. absorb c r = Inr c'
     \<and> polygons c' = polygons c @ get_polygons r
     \<and> references c' = remove1 r (references c)
     \<and> mset (flatten c') = mset (flatten c)
     \<and> set (flatten c') = set (flatten c)"
proof -
  let ?c' = "Component (polygons c @ get_polygons r) (remove1 r (references c)) (ports c) (length_c c)"
  have a: "absorb c r = Inr ?c'" using assms by (simp add: absorb_def)
  have m: "mset (flatten ?c') = mset (flatten c)"
    using mset_concat_remove1 [OF assms, of get_polygons]
    by (simp add: flatten_eq [of c] ac_simps)
  from m have s: "set (flatten ?c') = set (flatten c)" by (rule mset_eq_setD)
  from a m s show ?thesis by (intro exI [of _ ?c'] conjI) simp_all
qed

theorem absorb_preserves_geometry_witness:
  "\<exists>c'. absorb test_parent (ComponentReference test_child (5, 2) 0 False) = Inr c'
     \<and> polygons c' = polygons test_parent @ get_polygons (ComponentReference test_child (5, 2) 0 False)
     \<and> references c' = []
     \<and> mset (flatten c') = mset (flatten test_parent)"
proof -
  have "ComponentReference test_child (5, 2) 0 False \<in> set (references test_parent)"
    by (simp add: test_parent_def)
  from absorb_preserves_geometry [OF this]
  obtain c' where "absorb test_parent (ComponentReference test_child (5, 2) 0 False) = Inr c'"
    and "polygons c' = polygons test_parent @ get_polygons (ComponentReference test_child (5, 2) 0 False)"
    and "references c' = remove1 (ComponentReference test_child (5, 2) 0 False) (references test_parent)"
    and "mset (flatten c') = mset (flatten test_parent)"
    by blast
  moreover have "remove1 (ComponentReference test_child (5, 2) 0 False) (references test_parent) = []"
    by (simp add: test_parent_def)
  ultimately show ?thesis by (intro exI [of _ c'] conjI) simp_all
qed

section \<open>The cell cache returns one instance per key\<close>

lemma cache_inv_new: "cache_inv cache_new"
  by (simp add: cache_inv_def cache_new_def)

lemma cell_inv:
  assumes "cache_inv c" and "cell f fac p c = (r, c')"
  shows "cache_inv c'"
proof (cases "table c (f, p)")
  case (Some i)
  with assms show ?thesis by (simp add: cell_def)
next
  case None
  show ?thesis
  proof (cases "fac p")
    case (Inl e)
    with None assms show ?thesis by (simp add: cell_def)
  next
    case (Inr built)
    with None assms(2) have c': "c' = c\<lparr>table := (table c)((f, p) \<mapsto> length (instances c)),
        instances := instances c @ [built]\<rparr>"
      by (simp add: cell_def)
    from assms(1) have bound: "\<And>k i. table c k = Some i \<Longrightarrow> i < length (instances c)"
      and inj: "\<And>k k' i. table c k = Some i \<Longrightarrow> table c k' = Some i \<Longrightarrow> k = k'"
      by (auto simp: cache_inv_def)
    show ?thesis
      unfolding cache_inv_def c'
      by (auto dest: bound inj simp: less_Suc_eq split: if_splits)
  qed
qed

lemma cell_mono:
  assumes "cell f fac p c = (r, c')" and "table c k = Some i"
  shows "table c' k = Some i"
  using assms by (auto simp: cell_def split: option.splits sum.splits)

lemma cell_result:
  assumes "cell f fac p c = (Inr j, c')"
  shows "table c' (f, p) = Some j"
  using assms by (auto simp: cell_def split: option.splits sum.splits)

lemma cell_first:
  assumes inv: "cache_inv c" and res: "cell f fac p c = (Inr j, c')" and old: "table c k = Some i"
  shows "(k = (f, p)) = (i = j)"
proof (cases "table c (f, p)")
  case (Some j')
  with res have hit: "table c (f, p) = Some j" by (simp add: cell_def)
  from inv have inj: "\<And>k k' i. table c k = Some i \<Longrightarrow> table c k' = Some i \<Longrightarrow> k = k'"
    unfolding cache_inv_def by blast
  show ?thesis
  proof
    assume "k = (f, p)"
    with old hit show "i = j" by simp
  next
    assume "i = j"
    with old have "table c k = Some j" by simp
    then show "k = (f, p)" using hit by (rule inj)
  qed
next
  case None
  with res have "j = length (instances c)"
    by (auto simp: cell_def split: sum.splits)
  moreover from inv old have "i < length (instances c)" unfolding cache_inv_def by blast
  moreover from None old have "k \<noteq> (f, p)" by auto
  ultimately show ?thesis by simp
qed

lemma calls_old_entry:
  "cache_inv c \<Longrightarrow> n < length cs \<Longrightarrow> calls cs c ! n = Inr j \<Longrightarrow> table c k = Some i \<Longrightarrow>
     (k = call_key (cs ! n)) = (i = j)"
proof (induction cs c arbitrary: n rule: calls.induct)
  case (1 c)
  then show ?case by simp
next
  case (2 f fac p rest c)
  obtain r c' where step: "cell f fac p c = (r, c')" by (cases "cell f fac p c")
  show ?case
  proof (cases n)
    case 0
    with "2.prems"(3) step have "r = Inr j" by simp
    with step "2.prems"(1,4) have "(k = (f, p)) = (i = j)" by (auto dest: cell_first)
    with 0 show ?thesis by (simp add: call_key_def)
  next
    case (Suc n')
    from "2.prems"(1) step have inv': "cache_inv c'" by (rule cell_inv)
    from step "2.prems"(4) have old': "table c' k = Some i" by (rule cell_mono)
    from Suc "2.prems"(2) have n': "n' < length rest" by simp
    from Suc "2.prems"(3) step have res': "calls rest c' ! n' = Inr j" by simp
    from "2.IH" [OF step [symmetric] inv' n' res' old'] Suc show ?thesis by simp
  qed
qed

lemma calls_later:
  "cache_inv c \<Longrightarrow> m < n \<Longrightarrow> n < length cs \<Longrightarrow> calls cs c ! m = Inr i \<Longrightarrow>
   calls cs c ! n = Inr j \<Longrightarrow> (call_key (cs ! m) = call_key (cs ! n)) = (i = j)"
proof (induction cs c arbitrary: m n rule: calls.induct)
  case (1 c)
  then show ?case by simp
next
  case (2 f fac p rest c)
  obtain r c' where step: "cell f fac p c = (r, c')" by (cases "cell f fac p c")
  from "2.prems"(1) step have inv': "cache_inv c'" by (rule cell_inv)
  from "2.prems"(2) obtain n' where n: "n = Suc n'" by (cases n) auto
  from n "2.prems"(3) have n': "n' < length rest" by simp
  from n "2.prems"(5) step have resn: "calls rest c' ! n' = Inr j" by simp
  show ?case
  proof (cases m)
    case 0
    with "2.prems"(4) step have "r = Inr i" by simp
    with step have "table c' (f, p) = Some i" by (auto dest: cell_result)
    from calls_old_entry [OF inv' n' resn this] 0 n show ?thesis
      by (simp add: call_key_def)
  next
    case (Suc m')
    from Suc n "2.prems"(2) have mn: "m' < n'" by simp
    from Suc "2.prems"(4) step have resm: "calls rest c' ! m' = Inr i" by simp
    from "2.IH" [OF step [symmetric] inv' mn n' resm resn] Suc n show ?thesis by simp
  qed
qed

lemma test_calls_results: "calls test_calls cache_new = [Inr 0, Inr 1, Inr 0]"
  by (simp add: test_calls_def cache_new_def cell_def test_triangle_def triangle_def)

text \<open>
  Claim C5. In any sequence of calls of decorated factories that starts from the empty
  cache, two calls that both return an instance return the same instance if and only if
  they have the same factory name and the same parameter values.
\<close>

theorem cell_memoization:
  assumes m: "m < length cs" and n: "n < length cs"
    and i: "calls cs cache_new ! m = Inr i" and j: "calls cs cache_new ! n = Inr j"
  shows "(call_key (cs ! m) = call_key (cs ! n)) = (i = j)"
proof -
  consider "m < n" | "m = n" | "n < m" by linarith
  then show ?thesis
  proof cases
    case 1
    from calls_later [OF cache_inv_new 1 n i j] show ?thesis .
  next
    case 2
    with i j show ?thesis by simp
  next
    case 3
    from calls_later [OF cache_inv_new 3 m j i] show ?thesis by auto
  qed
qed

theorem cell_memoization_witness:
  "calls test_calls cache_new ! 0 = Inr 0 \<and> calls test_calls cache_new ! 2 = Inr 0
   \<and> calls test_calls cache_new ! 1 = Inr 1
   \<and> (call_key (test_calls ! 0) = call_key (test_calls ! 2)) = ((0::nat) = 0)
   \<and> (call_key (test_calls ! 0) = call_key (test_calls ! 1)) = ((0::nat) = 1)"
proof -
  have n: "0 < length test_calls" "1 < length test_calls" "2 < length test_calls"
    by (simp_all add: test_calls_def)
  have r0: "calls test_calls cache_new ! 0 = Inr 0"
    and r1: "calls test_calls cache_new ! 1 = Inr 1"
    and r2: "calls test_calls cache_new ! 2 = Inr 0"
    by (simp_all add: test_calls_results)
  from cell_memoization [OF n(1) n(3) r0 r2] cell_memoization [OF n(1) n(2) r0 r1] r0 r1 r2
  show ?thesis by (intro conjI)
qed

section \<open>Properties of coupler90\<close>

lemma and_then_Inr: "and_then (Inr a) f = f a"
  by (simp add: and_then_def)

lemma getitem_Some: "map_of d k = Some v \<Longrightarrow> getitem d k = Inr v"
  by (simp add: getitem_def)

lemma transform_port_movey_ref:
  "transform_port (movey (ref c) d) p =
     p\<lparr>midpoint := (fst (midpoint p), snd (midpoint p) + d), orientation := orientation p mod 360\<rparr>"
  by (simp add: transform_port_def transform_point_def movey_def move_def ref_def rotate_point_zero Let_def)

lemma parent_movey: "parent (movey r d) = parent r"
  by (simp add: movey_def move_def)

lemma coupler90_result:
  assumes xs: "cross_section radius kwargs = Inr x"
    and width: "map_of (info x) ''width'' = Some w"
    and bend: "call_if_callable bend cross_section kwargs = Inr bend90"
    and n0: "map_of (ports bend90) (Str ''N0'') = Some n0"
    and w0: "map_of (ports bend90) (Str ''W0'') = Some w0"
    and st: "straight cross_section (fst (midpoint n0) - fst (midpoint w0)) kwargs = Inr st"
    and e0: "map_of (ports st) (Str ''E0'') = Some e0"
    and sw0: "map_of (ports st) (Str ''W0'') = Some sw0"
  shows "coupler90 gap radius bend cross_section kwargs straight =
    Inr (Component
          (get_polygons (ref st) @ get_polygons (movey (ref bend90) (snd (midpoint w0) + gap + w)))
          []
          [(Str ''E0'', (transform_port (ref st) e0)\<lparr>name := Str ''E0''\<rparr>),
           (Str ''N0'', (transform_port (movey (ref bend90) (snd (midpoint w0) + gap + w)) n0)
                          \<lparr>name := Str ''N0''\<rparr>),
           (Str ''W0'', (transform_port (ref st) sw0)\<lparr>name := Str ''W0''\<rparr>),
           (Str ''W1'', (transform_port (movey (ref bend90) (snd (midpoint w0) + gap + w)) w0)
                          \<lparr>name := Str ''W1''\<rparr>)]
          None)"
proof -
  let ?d = "snd (midpoint w0) + gap + w"
  let ?b = "ref bend90" and ?b' = "movey (ref bend90) ?d" and ?s = "ref st"
  have pbw: "getitem (ref_ports ?b) (Str ''W0'') = Inr (transform_port ?b w0)"
    by (rule getitem_ref_ports) (simp add: parent_ref w0)
  have mid: "snd (midpoint (transform_port ?b w0)) = snd (midpoint w0)"
    by (simp add: transform_port_ref)
  have c3: "update_ref (add (add Component_new ?b) ?s) ?b ?b' = Component [] [?b', ?s] [] None"
    by (simp add: update_ref_def add_def Component_new_def)
  have a1: "absorb (Component [] [?b', ?s] [] None) ?s = Inr (Component (get_polygons ?s) [?b'] [] None)"
    by (simp add: absorb_def)
  have a2: "absorb (Component (get_polygons ?s) [?b'] [] None) ?b' =
      Inr (Component (get_polygons ?s @ get_polygons ?b') [] [] None)"
    by (simp add: absorb_def)
  have pe0: "getitem (ref_ports ?s) (Str ''E0'') = Inr (transform_port ?s e0)"
    by (rule getitem_ref_ports) (simp add: parent_ref e0)
  have pw0: "getitem (ref_ports ?s) (Str ''W0'') = Inr (transform_port ?s sw0)"
    by (rule getitem_ref_ports) (simp add: parent_ref sw0)
  have pn0: "getitem (ref_ports ?b') (Str ''N0'') = Inr (transform_port ?b' n0)"
    by (rule getitem_ref_ports) (simp add: parent_ref parent_movey n0)
  have pw1: "getitem (ref_ports ?b') (Str ''W0'') = Inr (transform_port ?b' w0)"
    by (rule getitem_ref_ports) (simp add: parent_ref parent_movey w0)
  show ?thesis
    unfolding coupler90_def Let_def xs bend and_then_Inr add_ref_def prod.case
      getitem_Some [OF n0] getitem_Some [OF w0] st getitem_Some [OF width] pbw mid c3 a1 a2
      pe0 pw0 pn0 pw1
    by (simp add: add_port_def and_then_Inr)
qed

lemma transform_point_movey_ref:
  "transform_point (movey (ref c) d) = (\<lambda>p. (fst p, snd p + d))"
  by (rule ext) (simp add: movey_def move_def ref_def transform_point_def rotate_point_zero Let_def)

lemma transform_point_ref: "transform_point (ref c) = (\<lambda>p. p)"
  by (rule ext) (simp add: ref_def transform_point_def rotate_point_zero Let_def)

lemma get_polygons_eq: "get_polygons r = map (transform_polygon r) (flatten (parent r))"
  by (cases r) simp

lemma get_polygons_movey_ref:
  "get_polygons (movey (ref c) d) =
     map (\<lambda>pg. (map (\<lambda>p. (fst p, snd p + d)) (fst pg), snd pg)) (flatten c)"
  unfolding get_polygons_eq parent_movey parent_ref
  by (rule map_cong) (simp_all add: transform_polygon_def transform_point_movey_ref)

lemma get_polygons_ref: "get_polygons (ref c) = flatten c"
  unfolding get_polygons_eq parent_ref
  by (rule map_idI) (simp add: transform_polygon_def transform_point_ref)

text \<open>
  What \<^verbatim>\<open>coupler90\<close> computes. If the cross-section has a width, the bend has the ports N0
  and W0 and the straight has the ports E0 and W0, it returns a component with exactly the
  ports E0, N0, W0, W1, in this order, and no reference left. The straight is built with
  the length \<open>N0.x - W0.x\<close> of the bend and keeps its place; the bend (its polygons and its
  ports N0 and W0, the latter exposed as W1) is moved up by the y-coordinate of its own W0
  plus gap plus width, as line 58 has it.
\<close>

lemma coupler90_ports:
  assumes xs: "cross_section radius kwargs = Inr x"
    and width: "map_of (info x) ''width'' = Some w"
    and bend: "call_if_callable bend cross_section kwargs = Inr bend90"
    and n0: "map_of (ports bend90) (Str ''N0'') = Some n0"
    and w0: "map_of (ports bend90) (Str ''W0'') = Some w0"
    and st: "straight cross_section (fst (midpoint n0) - fst (midpoint w0)) kwargs = Inr st"
    and e0: "map_of (ports st) (Str ''E0'') = Some e0"
    and sw0: "map_of (ports st) (Str ''W0'') = Some sw0"
  shows "\<exists>c. coupler90 gap radius bend cross_section kwargs straight = Inr c
    \<and> map fst (ports c) = [Str ''E0'', Str ''N0'', Str ''W0'', Str ''W1'']
    \<and> map (name \<circ> snd) (ports c) = [Str ''E0'', Str ''N0'', Str ''W0'', Str ''W1'']
    \<and> map (midpoint \<circ> snd) (ports c) =
         [midpoint e0,
          (fst (midpoint n0), snd (midpoint n0) + (snd (midpoint w0) + gap + w)),
          midpoint sw0,
          (fst (midpoint w0), snd (midpoint w0) + (snd (midpoint w0) + gap + w))]
    \<and> references c = []
    \<and> polygons c =
         flatten st @
         map (\<lambda>pg. (map (\<lambda>p. (fst p, snd p + (snd (midpoint w0) + gap + w))) (fst pg), snd pg))
           (flatten bend90)"
proof -
  have "coupler90 gap radius bend cross_section kwargs straight =
    Inr (Component
          (get_polygons (ref st) @ get_polygons (movey (ref bend90) (snd (midpoint w0) + gap + w)))
          []
          [(Str ''E0'', (transform_port (ref st) e0)\<lparr>name := Str ''E0''\<rparr>),
           (Str ''N0'', (transform_port (movey (ref bend90) (snd (midpoint w0) + gap + w)) n0)
                          \<lparr>name := Str ''N0''\<rparr>),
           (Str ''W0'', (transform_port (ref st) sw0)\<lparr>name := Str ''W0''\<rparr>),
           (Str ''W1'', (transform_port (movey (ref bend90) (snd (midpoint w0) + gap + w)) w0)
                          \<lparr>name := Str ''W1''\<rparr>)]
          None)"
    using assms by (rule coupler90_result)
  then show ?thesis
    by (simp add: transform_port_ref transform_port_movey_ref get_polygons_ref
        get_polygons_movey_ref)
qed

text \<open>
  The library's own shape of input: a bend factory whose W0 lies at the origin. The bend is
  moved up by gap plus width, here 0.7.
\<close>

lemma coupler90_ports_example:
  "\<exists>c. coupler90 (1 / 5) 10 (Factory (\<lambda>cross_section kwargs. Inr (test_bend90 0)))
         test_cross_section () test_straight = Inr c
    \<and> map fst (ports c) = [Str ''E0'', Str ''N0'', Str ''W0'', Str ''W1'']
    \<and> map (midpoint \<circ> snd) (ports c) = [(10, 0), (10, 107 / 10), (0, 0), (0, 7 / 10)]
    \<and> references c = []"
proof -
  have xs: "test_cross_section 10 () = Inr \<lparr>info = [(''width'', 1 / 2)]\<rparr>"
    by (simp add: test_cross_section_def)
  have width: "map_of (info \<lparr>info = [(''width'', 1 / 2)]\<rparr>) ''width'' = Some (1 / 2)"
    by simp
  have bend: "call_if_callable (Factory (\<lambda>cross_section kwargs. Inr (test_bend90 0)))
      test_cross_section () = Inr (test_bend90 0)"
    by (simp add: call_if_callable_def)
  let ?n0 = "\<lparr>name = Str ''N0'', midpoint = (10, 10), width = 1 / 2, orientation = 90,
                      layer = (1, 0), port_type = ''optical''\<rparr>"
  let ?w0 = "\<lparr>name = Str ''W0'', midpoint = (0, 0), width = 1 / 2, orientation = 180,
                      layer = (1, 0), port_type = ''optical''\<rparr>"
  let ?e0 = "\<lparr>name = Str ''E0'', midpoint = (10, 0), width = 1 / 2, orientation = 0,
                           layer = (1, 0), port_type = ''optical''\<rparr>"
  let ?st = "Component [([(0, - 1 / 4), (10, - 1 / 4), (10, 1 / 4), (0, 1 / 4)], (1, 0))] []
            [(Str ''W0'', ?w0), (Str ''E0'', ?e0)] (Some 10)"
  have n0: "map_of (ports (test_bend90 0)) (Str ''N0'') = Some ?n0"
    and w0: "map_of (ports (test_bend90 0)) (Str ''W0'') = Some ?w0"
    by (simp_all add: test_bend90_def)
  have st: "test_straight test_cross_section (fst (midpoint ?n0) - fst (midpoint ?w0)) () = Inr ?st"
    by (simp add: test_straight_def)
  have e0: "map_of (ports ?st) (Str ''E0'') = Some ?e0"
    and sw0: "map_of (ports ?st) (Str ''W0'') = Some ?w0"
    by simp_all
  from coupler90_ports
         [where cross_section = test_cross_section and radius = 10 and kwargs = "()"
            and straight = test_straight and gap = "1 / 5",
          OF xs width bend n0 w0 st e0 sw0]
  obtain c where "coupler90 (1 / 5) 10 (Factory (\<lambda>cross_section kwargs. Inr (test_bend90 0)))
         test_cross_section () test_straight = Inr c"
    and "map fst (ports c) = [Str ''E0'', Str ''N0'', Str ''W0'', Str ''W1'']"
    and "map (midpoint \<circ> snd) (ports c) = [(10, 0), (10, 10 + (0 + 1 / 5 + 1 / 2)), (0, 0), (0, 0 + (0 + 1 / 5 + 1 / 2))]"
    and "references c = []"
    by auto
  moreover have "(10::real) + (0 + 1 / 5 + 1 / 2) = 107 / 10" and "(0::real) + (0 + 1 / 5 + 1 / 2) = 7 / 10"
    by simp_all
  ultimately show ?thesis by (intro exI [of _ c] conjI) simp_all
qed

text \<open>
  For a bend whose W0 lies on \<open>y = 0\<close> the displacement is gap plus width: W1 lies gap plus
  width above the W0 of the straight, so that the two guides are gap apart, as the
  docstring says.
\<close>

lemma coupler90_on_axis:
  assumes xs: "cross_section radius kwargs = Inr x"
    and width: "map_of (info x) ''width'' = Some w"
    and bend: "call_if_callable bend cross_section kwargs = Inr bend90"
    and n0: "map_of (ports bend90) (Str ''N0'') = Some n0"
    and w0: "map_of (ports bend90) (Str ''W0'') = Some w0"
    and st: "straight cross_section (fst (midpoint n0) - fst (midpoint w0)) kwargs = Inr st"
    and e0: "map_of (ports st) (Str ''E0'') = Some e0"
    and sw0: "map_of (ports st) (Str ''W0'') = Some sw0"
    and axis: "snd (midpoint w0) = 0"
  shows "\<exists>c. coupler90 gap radius bend cross_section kwargs straight = Inr c
    \<and> map fst (ports c) = [Str ''E0'', Str ''N0'', Str ''W0'', Str ''W1'']
    \<and> map (midpoint \<circ> snd) (ports c) =
         [midpoint e0,
          (fst (midpoint n0), snd (midpoint n0) + (gap + w)),
          midpoint sw0,
          (fst (midpoint w0), gap + w)]
    \<and> references c = []
    \<and> polygons c =
         flatten st @
         map (\<lambda>pg. (map (\<lambda>p. (fst p, snd p + (gap + w))) (fst pg), snd pg)) (flatten bend90)"
  using coupler90_ports
          [where cross_section = cross_section and radius = radius and kwargs = kwargs
             and straight = straight and gap = gap,
           OF xs width bend n0 w0 st e0 sw0]
        axis
  by auto

text \<open>
  A prebuilt bend and a factory that returns it are the same input to \<^verbatim>\<open>coupler90\<close>.
\<close>

lemma coupler90_prebuilt:
  "coupler90 gap radius (Factory (\<lambda>cross_section kwargs. Inr b)) cross_section kwargs straight =
   coupler90 gap radius (Prebuilt b) cross_section kwargs straight"
  by (simp add: coupler90_def call_if_callable_def)

text \<open>
  Claim C9: \<^verbatim>\<open>coupler90\<close> exposes the ports E0, N0, W0, W1, builds the straight with the
  length \<open>N0.x - W0.x\<close> of the bend, and moves the bend up by gap plus the cross-section
  width relative to the straight. The code misses the last part for a bend whose W0 does
  not lie on \<open>y = 0\<close>: line 58 adds the height of the bend's own W0 to the displacement
  where the docstring's gap asks for it to be taken off. With W0 at \<open>(0, 1)\<close>, gap 0.2 and
  width 0.5 the bend is moved up by 1.7, not 0.7: W1 ends at height 2.7 over a straight
  whose W0 is at height 0, and the guides are 2.2 apart instead of 0.2. The ports and the
  length of the straight are as the claim has them.
\<close>

theorem coupler90_raised_bend:
  "coupler90 (1 / 5) 10 (Prebuilt (test_bend90 1)) test_cross_section () test_straight =
     Inr (Component
            [([(0, - 1 / 4), (10, - 1 / 4), (10, 1 / 4), (0, 1 / 4)], (1, 0)),
             ([(0, 27 / 10), (10, 127 / 10), (0, 127 / 10)], (1, 0))]
            []
            [(Str ''E0'', \<lparr>name = Str ''E0'', midpoint = (10, 0), width = 1 / 2, orientation = 0,
                           layer = (1, 0), port_type = ''optical''\<rparr>),
             (Str ''N0'', \<lparr>name = Str ''N0'', midpoint = (10, 127 / 10), width = 1 / 2,
                           orientation = 90, layer = (1, 0), port_type = ''optical''\<rparr>),
             (Str ''W0'', \<lparr>name = Str ''W0'', midpoint = (0, 0), width = 1 / 2, orientation = 180,
                           layer = (1, 0), port_type = ''optical''\<rparr>),
             (Str ''W1'', \<lparr>name = Str ''W1'', midpoint = (0, 27 / 10), width = 1 / 2,
                           orientation = 180, layer = (1, 0), port_type = ''optical''\<rparr>)]
            None)
   \<and> map_of (ports (test_bend90 1)) (Str ''W0'') =
       Some \<lparr>name = Str ''W0'', midpoint = (0, 1), width = 1 / 2, orientation = 180,
             layer = (1, 0), port_type = ''optical''\<rparr>
   \<and> (27 / 10 :: real) - 1 \<noteq> 1 / 5 + 1 / 2"
proof -
  have xs: "test_cross_section 10 () = Inr \<lparr>info = [(''width'', 1 / 2)]\<rparr>"
    by (simp add: test_cross_section_def)
  have width: "map_of (info \<lparr>info = [(''width'', 1 / 2)]\<rparr>) ''width'' = Some (1 / 2)"
    by simp
  have bend: "call_if_callable (Prebuilt (test_bend90 1)) test_cross_section () = Inr (test_bend90 1)"
    by (simp add: call_if_callable_def)
  let ?n0 = "\<lparr>name = Str ''N0'', midpoint = (10, 11), width = 1 / 2, orientation = 90,
                      layer = (1, 0), port_type = ''optical''\<rparr>"
  let ?w0 = "\<lparr>name = Str ''W0'', midpoint = (0, 1), width = 1 / 2, orientation = 180,
                      layer = (1, 0), port_type = ''optical''\<rparr>"
  let ?sw0 = "\<lparr>name = Str ''W0'', midpoint = (0, 0), width = 1 / 2, orientation = 180,
                      layer = (1, 0), port_type = ''optical''\<rparr>"
  let ?e0 = "\<lparr>name = Str ''E0'', midpoint = (10, 0), width = 1 / 2, orientation = 0,
                           layer = (1, 0), port_type = ''optical''\<rparr>"
  let ?st = "Component [([(0, - 1 / 4), (10, - 1 / 4), (10, 1 / 4), (0, 1 / 4)], (1, 0))] []
            [(Str ''W0'', ?sw0), (Str ''E0'', ?e0)] (Some 10)"
  have n0: "map_of (ports (test_bend90 1)) (Str ''N0'') = Some ?n0"
    and w0: "map_of (ports (test_bend90 1)) (Str ''W0'') = Some ?w0"
    by (simp_all add: test_bend90_def)
  have st: "test_straight test_cross_section (fst (midpoint ?n0) - fst (midpoint ?w0)) () = Inr ?st"
    by (simp add: test_straight_def)
  have e0: "map_of (ports ?st) (Str ''E0'') = Some ?e0"
    and sw0: "map_of (ports ?st) (Str ''W0'') = Some ?sw0"
    by simp_all
  have "coupler90 (1 / 5) 10 (Prebuilt (test_bend90 1)) test_cross_section () test_straight =
     Inr (Component
            [([(0, - 1 / 4), (10, - 1 / 4), (10, 1 / 4), (0, 1 / 4)], (1, 0)),
             ([(0, 27 / 10), (10, 127 / 10), (0, 127 / 10)], (1, 0))]
            []
            [(Str ''E0'', ?e0),
             (Str ''N0'', \<lparr>name = Str ''N0'', midpoint = (10, 127 / 10), width = 1 / 2,
                           orientation = 90, layer = (1, 0), port_type = ''optical''\<rparr>),
             (Str ''W0'', ?sw0),
             (Str ''W1'', \<lparr>name = Str ''W1'', midpoint = (0, 27 / 10), width = 1 / 2,
                           orientation = 180, layer = (1, 0), port_type = ''optical''\<rparr>)]
            None)"
    unfolding coupler90_result
         [where cross_section = test_cross_section and radius = 10 and kwargs = "()"
            and straight = test_straight and gap = "1 / 5",
          OF xs width bend n0 w0 st e0 sw0]
    by (simp add: transform_port_ref transform_port_movey_ref get_polygons_ref
        get_polygons_movey_ref test_bend90_def)
  with w0 show ?thesis by simp
qed

section \<open>Properties of straight_heater_connector and straight_with_heater\<close>

lemma and_then_not_error:
  assumes "m \<noteq> Inl e" and "\<And>a. m = Inr a \<Longrightarrow> f a \<noteq> Inl e"
  shows "and_then m f \<noteq> Inl e"
  using assms by (cases m) (auto simp: and_then_def)

lemma and_then_eq_Inr:
  "and_then m f = Inr b \<longleftrightarrow> (\<exists>a. m = Inr a \<and> f a = Inr b)"
  by (cases m) (auto simp: and_then_def)

lemma getitem_not_assertion: "getitem d k \<noteq> Inl AssertionError"
  by (simp add: getitem_def split: option.splits)

lemma last_item_not_assertion: "last_item xs \<noteq> Inl AssertionError"
  by (simp add: last_item_def)

lemma item_not_assertion: "item xs i \<noteq> Inl AssertionError"
  by (simp add: item_def)

lemma add_port_fields_not_assertion: "add_port_fields c k m w a l t \<noteq> Inl AssertionError"
  by (simp add: add_port_fields_def Port_def add_port_def)

lemma connector_bad_input:
  assumes "\<not> heater_ports_ok hp"
  shows "straight_heater_connector hp layers pw po tlm line = Inl AssertionError"
  using assms by (auto simp: straight_heater_connector_def heater_ports_ok_def Let_def)

lemma connector_good_input:
  assumes ok: "heater_ports_ok hp"
    and tlm: "tlm (1 / 2) (1 / 2) layers [] \<noteq> Inl AssertionError"
  shows "straight_heater_connector hp layers pw po tlm line \<noteq> Inl AssertionError"
proof -
  from ok have n: "length hp = 2" and eq: "orientation (hp ! 0) = orientation (hp ! 1)"
    and ang: "orientation (hp ! 0) mod 360 = 0 \<or> orientation (hp ! 0) mod 360 = 180"
    by (auto simp: heater_ports_ok_def)
  from ang have ang': "orientation (hp ! 0) mod 360 \<in> set [0, 180]" by auto
  show ?thesis
    unfolding straight_heater_connector_def Let_def
    using n eq ang'
    apply (simp only: if_False not_not refl if_True simp_thms)
    apply (intro and_then_not_error tlm getitem_not_assertion)
    apply (simp only: split_def)
    apply (intro and_then_not_error last_item_not_assertion item_not_assertion)
    apply (cases pw)
     apply (simp_all add: add_port_fields_not_assertion)
    done
qed

lemma port_invariant_name: "port_invariant (p\<lparr>name := k\<rparr>) = port_invariant p"
  by (simp add: port_invariant_def)

lemma add_port_ok:
  assumes "add_port c k p = Inr c'" and "ports_ok c" and "port_invariant p"
  shows "ports_ok c'"
  using assms
  by (auto simp: add_port_def ports_ok_def port_invariant_name split: if_splits)

lemma add_ports_ok:
  "add_ports c items = Inr c' \<Longrightarrow> ports_ok c \<Longrightarrow>
   (\<forall>(k, p) \<in> set items. port_invariant p) \<Longrightarrow> ports_ok c'"
proof (induction c items rule: add_ports.induct)
  case (1 c)
  then show ?case by simp
next
  case (2 c k p rest)
  from "2.prems"(1) obtain c1 where a: "add_port c k p = Inr c1" and r: "add_ports c1 rest = Inr c'"
    by (auto simp: and_then_eq_Inr)
  from "2.prems"(3) have p: "port_invariant p" and rest: "\<forall>(k, p) \<in> set rest. port_invariant p"
    by auto
  from a "2.prems"(2) p have "ports_ok c1" by (rule add_port_ok)
  with "2.IH" r rest show ?case by blast
qed

lemma set_update_subset: "set (AList.update k v al) \<subseteq> insert (k, v) (set al)"
  by (induction al) auto

lemma set_orientation_ok:
  assumes "set_orientation c k a = Inr c'" and "ports_ok c" and "0 \<le> a" and "a < 360"
  shows "ports_ok c'"
proof -
  from assms(1) obtain p where p: "map_of (ports c) k = Some p"
    and c': "ports c' = AList.update k (p\<lparr>orientation := a\<rparr>) (ports c)"
    by (auto simp: set_orientation_def split: option.splits)
  from p have "(k, p) \<in> set (ports c)" by (rule map_of_SomeD)
  with assms(2) have "port_invariant p" by (auto simp: ports_ok_def)
  with assms(3,4) have new: "port_invariant (p\<lparr>orientation := a\<rparr>)"
    by (simp add: port_invariant_def)
  show ?thesis
    unfolding ports_ok_def c'
    using set_update_subset [of k "p\<lparr>orientation := a\<rparr>" "ports c"] new assms(2)
    by (auto simp: ports_ok_def)
qed

lemma transform_port_invariant: "0 < width p \<Longrightarrow> port_invariant (transform_port r p)"
  by (simp add: transform_port_def port_invariant_def)

lemma ref_ports_invariant:
  assumes "\<forall>(k, p) \<in> set (ports (parent r)). 0 < width p"
  shows "\<forall>(k, p) \<in> set (ref_ports r). port_invariant p"
  using assms by (auto simp: ref_ports_def transform_port_invariant)

lemma getitem_in_set: "getitem d k = Inr v \<Longrightarrow> (k, v) \<in> set d"
  by (auto simp: getitem_def split: option.splits dest: map_of_SomeD)

lemma parent_set_xmin: "parent (set_xmin r v) = parent r"
  by (simp add: set_xmin_def movex_def move_def)

lemma parent_set_xmax: "parent (set_xmax r v) = parent r"
  by (simp add: set_xmax_def movex_def move_def)

lemma ports_update_ref: "ports (update_ref c old new) = ports c"
  by (simp add: update_ref_def)

lemma ports_add: "ports (add c r) = ports c"
  by (simp add: add_def)

lemma ports_add_polygon: "ports (add_polygon c pts l) = ports c"
  by (simp add: add_polygon_def)

lemma ports_ok_empty: "ports c = [] \<Longrightarrow> ports_ok c"
  by (simp add: ports_ok_def)

lemma straight_with_heater_ports_ok:
  assumes res: "straight_with_heater len straight_heater connector port_width poi poo kwargs rename = Inr c"
    and heater: "\<forall>h. straight_heater len kwargs = Inr h \<longrightarrow> (\<forall>(k, p) \<in> set (ports h). 0 < width p)"
    and conn: "\<forall>hp k. connector hp port_width = Inr k \<longrightarrow> (\<forall>(n, p) \<in> set (ports k). 0 < width p)"
    and ren: "\<forall>c. ports_ok c \<longrightarrow> ports_ok (rename c)"
    and poi: "0 \<le> poi" "poi < 360" and poo: "0 \<le> poo" "poo < 360"
  shows "ports_ok c"
proof -
  from res obtain h hbe0 hte0 k1 hbw0 htw0 k2 c6 p1 c7 p2 c8 c9 c10 where
    h: "straight_heater len kwargs = Inr h"
    and k1: "connector [hbe0, hte0] port_width = Inr k1"
    and k2: "connector [hbw0, htw0] port_width = Inr k2"
    and c6: "add_ports (update_ref (update_ref (add (add (add Component_new (ref h)) (ref k1)) (ref k2))
               (ref k1) (set_xmin (ref k1) (xmin (ref h))))
               (ref k2) (set_xmax (ref k2) (xmax (ref h)))) (ref_ports (ref h)) = Inr c6"
    and p1: "getitem (ref_ports (set_xmin (ref k1) (xmin (ref h)))) (Str ''0'') = Inr p1"
    and c7: "add_port c6 (Num 1) p1 = Inr c7"
    and p2: "getitem (ref_ports (set_xmax (ref k2) (xmax (ref h)))) (Str ''0'') = Inr p2"
    and c8: "add_port c7 (Num 2) p2 = Inr c8"
    and c9: "set_orientation c8 (Num 1) poi = Inr c9"
    and c10: "set_orientation c9 (Num 2) poo = Inr c10"
    and c: "c = rename c10"
    unfolding straight_with_heater_def Let_def add_ref_def prod.case and_then_eq_Inr
    by (elim exE conjE) (simp only: sum.inject)
  from heater h have hw: "\<forall>(k, p) \<in> set (ports (parent (ref h))). 0 < width p"
    by (simp add: parent_ref)
  from conn k1 have w1: "\<forall>(n, p) \<in> set (ports (parent (set_xmin (ref k1) (xmin (ref h))))). 0 < width p"
    by (simp only: parent_set_xmin parent_ref) blast
  from conn k2 have w2: "\<forall>(n, p) \<in> set (ports (parent (set_xmax (ref k2) (xmax (ref h))))). 0 < width p"
    by (simp only: parent_set_xmax parent_ref) blast
  have "ports_ok (update_ref (update_ref (add (add (add Component_new (ref h)) (ref k1)) (ref k2))
               (ref k1) (set_xmin (ref k1) (xmin (ref h))))
               (ref k2) (set_xmax (ref k2) (xmax (ref h))))"
    by (rule ports_ok_empty) (simp add: ports_update_ref ports_add Component_new_def)
  with c6 have ok6: "ports_ok c6"
    using ref_ports_invariant [OF hw] by (rule add_ports_ok)
  from getitem_in_set [OF p1] ref_ports_invariant [OF w1] have "port_invariant p1" by auto
  with c7 ok6 have ok7: "ports_ok c7" by (rule add_port_ok)
  from getitem_in_set [OF p2] ref_ports_invariant [OF w2] have "port_invariant p2" by auto
  with c8 ok7 have ok8: "ports_ok c8" by (rule add_port_ok)
  from c9 ok8 poi have ok9: "ports_ok c9" by (rule set_orientation_ok)
  from c10 ok9 poo have "ports_ok c10" by (rule set_orientation_ok)
  with ren c show ?thesis by blast
qed

lemmas eval_defs = test_connector_def straight_heater_connector_def test_port_def test_layers_def
     test_tlm_def test_line_def and_then_def getitem_def Let_def ref_at_def add_def
     Component_new_def last_item_def item_def padd_def pscale_def psum_def add_polygon_def
     add_port_fields_def Port_def add_port_def straight_with_heater_def test_heater_def
     add_ref_def ref_def ref_ports_def transform_port_def transform_point_def rotate_point_def
     xmin_def xmax_def xs_of_def set_xmin_def set_xmax_def movex_def move_def update_ref_def
     set_orientation_def transform_polygon_def

lemma loop_ports:
  "ports (fst (fold (\<lambda>p pa. (add (fst pa) (ref_at h (padd (midpoint (fst p)) (snd p))),
                             snd pa @ [padd (midpoint (fst p)) (snd p)]))
                 xs acc)) = ports (fst acc)"
  by (induction xs arbitrary: acc) (simp_all add: ports_add)

lemma add_port_fields_ok:
  assumes "add_port_fields c k m w a l t = Inr c'" and "ports_ok c"
  shows "ports_ok c'"
proof -
  from assms(1) obtain p where p: "Port k m w a l t = Inr p" and c': "add_port c k p = Inr c'"
    by (auto simp: add_port_fields_def split: sum.splits)
  from p have "port_invariant p"
    by (auto simp: Port_def port_invariant_def split: if_splits)
  with c' assms(2) show ?thesis by (rule add_port_ok)
qed

lemma and_then_InrE:
  assumes "and_then m f = Inr b"
  obtains a where "m = Inr a" and "f a = Inr b"
  using assms by (auto simp: and_then_eq_Inr)

lemma connector_port:
  assumes res: "straight_heater_connector hp layers pw po tlm line = Inr k"
  shows "\<exists>m w l. pw = Some w \<and> 0 < w \<and>
    ports k = [(Str ''0'', \<lparr>name = Str ''0'', midpoint = m, width = w,
                  orientation = (case po of Some b \<Rightarrow> b mod 360
                                 | None \<Rightarrow> orientation (hp ! 0) mod 360),
                  layer = l, port_type = ''dc''\<rparr>)]"
proof -
  have ok: "heater_ports_ok hp"
  proof (rule ccontr)
    assume "\<not> heater_ports_ok hp"
    then have "straight_heater_connector hp layers pw po tlm line = Inl AssertionError"
      by (rule connector_bad_input)
    with res show False by simp
  qed
  then have c1: "(length hp \<noteq> 2) = False"
    and c2: "(orientation (hp ! 0) \<noteq> orientation (hp ! 1)) = False"
    and c3: "(orientation (hp ! 0) mod 360 \<in> set [0, 180]) = True"
    by (auto simp: heater_ports_ok_def)
  have "\<exists>c m w l. pw = Some w \<and> ports c = [] \<and>
      add_port_fields c (Str ''0'') m w
        (case po of Some b \<Rightarrow> b | None \<Rightarrow> orientation (hp ! 0) mod 360) l ''dc'' = Inr k"
    using res
    unfolding straight_heater_connector_def Let_def
    apply (simp only: c1 c2 c3 if_False if_True simp_thms split_def)
    apply (erule and_then_InrE)+
    apply (cases pw)
     apply simp
    apply (simp only: option.case)
    apply (intro exI conjI, rule refl)
     prefer 2
     apply assumption
    apply (simp add: ports_add_polygon loop_ports Component_new_def)
    done
  then obtain c m w l where pw: "pw = Some w" and empty: "ports c = []"
    and last: "add_port_fields c (Str ''0'') m w
        (case po of Some b \<Rightarrow> b | None \<Rightarrow> orientation (hp ! 0) mod 360) l ''dc'' = Inr k"
    by blast
  from last empty have "0 < w \<and> ports k = [(Str ''0'', \<lparr>name = Str ''0'', midpoint = m, width = w,
                  orientation = (case po of Some b \<Rightarrow> b | None \<Rightarrow> orientation (hp ! 0) mod 360) mod 360,
                  layer = l, port_type = ''dc''\<rparr>)]"
    by (auto simp: add_port_fields_def Port_def add_port_def split: if_splits)
  moreover have "(case po of Some b \<Rightarrow> b | None \<Rightarrow> orientation (hp ! 0) mod 360) mod 360 =
      (case po of Some b \<Rightarrow> b mod 360 | None \<Rightarrow> orientation (hp ! 0) mod 360)"
    by (cases po) simp_all
  ultimately show ?thesis using pw by auto
qed

lemma connector_ports_ok:
  assumes "straight_heater_connector hp layers pw po tlm line = Inr k"
  shows "ports_ok k"
proof -
  from connector_port [OF assms] obtain m w l where "0 < w"
    and "ports k = [(Str ''0'', \<lparr>name = Str ''0'', midpoint = m, width = w,
                  orientation = (case po of Some b \<Rightarrow> b mod 360
                                 | None \<Rightarrow> orientation (hp ! 0) mod 360),
                  layer = l, port_type = ''dc''\<rparr>)]"
    by blast
  then show ?thesis
    by (cases po) (simp_all add: ports_ok_def port_invariant_def)
qed

lemma connector_default_orientation:
  assumes "straight_heater_connector hp layers pw None tlm line = Inr k"
  shows "\<forall>(n, p) \<in> set (ports k).
           orientation p = orientation (hp ! 0) mod 360 \<and> (orientation p = 0 \<or> orientation p = 180)"
proof -
  have ok: "heater_ports_ok hp"
  proof (rule ccontr)
    assume "\<not> heater_ports_ok hp"
    then have "straight_heater_connector hp layers pw None tlm line = Inl AssertionError"
      by (rule connector_bad_input)
    with assms show False by simp
  qed
  from connector_port [OF assms] obtain m w l where
    "ports k = [(Str ''0'', \<lparr>name = Str ''0'', midpoint = m, width = w,
                  orientation = orientation (hp ! 0) mod 360,
                  layer = l, port_type = ''dc''\<rparr>)]"
    by auto
  with ok show ?thesis by (auto simp: heater_ports_ok_def)
qed

lemma test_run:
  "map_sum id (\<lambda>c. map (\<lambda>(k, p). (k, orientation p, width p)) (ports c))
     (straight_with_heater 10 test_heater test_connector (Some 10) poi poo () (\<lambda>c. c)) =
   Inr [(Str ''W0'', 180, 1 / 2), (Str ''E0'', 0, 1 / 2), (Str ''HTW0'', 180, 1 / 2),
        (Str ''HTE0'', 0, 1 / 2), (Str ''HBW0'', 180, 1 / 2), (Str ''HBE0'', 0, 1 / 2),
        (Num 1, poi, 10), (Num 2, poo, 10)]"
  by (simp add: eval_defs)

text \<open>
  Claim C10. \<^verbatim>\<open>straight_heater_connector\<close> fails an assertion for every input that does not
  consist of exactly two ports of equal orientation, that orientation being 0 or 180
  modulo 360; for an input that does, no assertion of the function fails (an
  \<^verbatim>\<open>AssertionError\<close> could then only come out of \<^verbatim>\<open>tlm\<close>).
\<close>

theorem straight_heater_connector_precondition:
  "(\<not> heater_ports_ok hp \<longrightarrow>
      straight_heater_connector hp layers pw po tlm line = Inl AssertionError)
   \<and> (heater_ports_ok hp \<longrightarrow> tlm (1 / 2) (1 / 2) layers [] \<noteq> Inl AssertionError \<longrightarrow>
      straight_heater_connector hp layers pw po tlm line \<noteq> Inl AssertionError)"
  using connector_bad_input [of hp layers pw po tlm line]
    connector_good_input [of hp tlm layers pw po line]
  by blast

theorem straight_heater_connector_precondition_witness:
  "straight_heater_connector [snd (test_port ''HBE0'' (10, - 17 / 10) 540 ''heater''),
       snd (test_port ''HTE0'' (10, 17 / 10) 540 ''heater'')]
     test_layers (Some 10) None test_tlm test_line \<noteq> Inl AssertionError
   \<and> straight_heater_connector [snd (test_port ''HBE0'' (10, - 17 / 10) 0 ''heater''),
       snd (test_port ''HTE0'' (10, 17 / 10) 90 ''heater'')]
     test_layers (Some 10) None test_tlm test_line = Inl AssertionError
   \<and> straight_heater_connector [snd (test_port ''HBE0'' (10, - 17 / 10) 0 ''heater'')]
     test_layers (Some 10) None test_tlm test_line = Inl AssertionError"
proof -
  have good: "heater_ports_ok [snd (test_port ''HBE0'' (10, - 17 / 10) 540 ''heater''),
       snd (test_port ''HTE0'' (10, 17 / 10) 540 ''heater'')]"
    by (simp add: heater_ports_ok_def test_port_def)
  have bad1: "\<not> heater_ports_ok [snd (test_port ''HBE0'' (10, - 17 / 10) 0 ''heater''),
       snd (test_port ''HTE0'' (10, 17 / 10) 90 ''heater'')]"
    by (simp add: heater_ports_ok_def test_port_def)
  have bad2: "\<not> heater_ports_ok [snd (test_port ''HBE0'' (10, - 17 / 10) 0 ''heater'')]"
    by (simp add: heater_ports_ok_def)
  have tlm: "test_tlm (1 / 2) (1 / 2) test_layers [] \<noteq> Inl AssertionError"
    by (simp add: test_tlm_def)
  from straight_heater_connector_precondition [where tlm = test_tlm and layers = test_layers]
    good bad1 bad2 tlm
  show ?thesis by blast
qed

lemma map_of_update: "map_of (AList.update k v al) = (map_of al)(k \<mapsto> v)"
  by (rule AList.update_conv')

lemma set_orientation_lookup:
  assumes "set_orientation c k a = Inr c'"
  shows "map_option orientation (map_of (ports c') k) = Some a"
    and "k' \<noteq> k \<Longrightarrow> map_of (ports c') k' = map_of (ports c) k'"
  using assms
  by (auto simp: set_orientation_def map_of_update split: option.splits)

text \<open>
  Claim C8, as amended. \<^verbatim>\<open>straight_with_heater\<close> stores \<^verbatim>\<open>port_orientation_input\<close> and
  \<^verbatim>\<open>port_orientation_output\<close> as the orientations of its ports 1 and 2 as they are given,
  without reducing them modulo 360. Every port of the component it returns has an
  orientation in \<open>[0, 360)\<close> and a positive width if both arguments lie in \<open>[0, 360)\<close>, the
  ports of the heater and of the connectors have positive widths, and
  \<^verbatim>\<open>auto_rename_ports\<close> keeps the invariant. The port of a component that
  \<^verbatim>\<open>straight_heater_connector\<close> returns keeps the invariant; without a
  \<^verbatim>\<open>port_orientation\<close> its orientation is that of the heater ports modulo 360, which the
  assertions make 0 or 180.
\<close>

theorem straight_with_heater_port_orientation:
  assumes res: "straight_with_heater len straight_heater connector port_width poi poo kwargs rename = Inr c"
    and heater: "\<forall>h. straight_heater len kwargs = Inr h \<longrightarrow> (\<forall>(k, p) \<in> set (ports h). 0 < width p)"
    and conn: "\<forall>hp k. connector hp port_width = Inr k \<longrightarrow> (\<forall>(n, p) \<in> set (ports k). 0 < width p)"
    and ren: "\<forall>c. ports_ok c \<longrightarrow> ports_ok (rename c)"
  shows "(\<exists>c'. c = rename c'
            \<and> map_option orientation (map_of (ports c') (Num 1)) = Some poi
            \<and> map_option orientation (map_of (ports c') (Num 2)) = Some poo)
       \<and> (0 \<le> poi \<and> poi < 360 \<and> 0 \<le> poo \<and> poo < 360 \<longrightarrow> ports_ok c)
       \<and> (\<forall>k. straight_heater_connector hp layers pw po tlm line = Inr k \<longrightarrow>
             ports_ok k
             \<and> (po = None \<longrightarrow>
                  (\<forall>(n, p) \<in> set (ports k).
                     orientation p = orientation (hp ! 0) mod 360
                     \<and> (orientation p = 0 \<or> orientation p = 180))))"
proof (intro conjI)
  from res obtain c8 c9 c10 where
    c9: "set_orientation c8 (Num 1) poi = Inr c9"
    and c10: "set_orientation c9 (Num 2) poo = Inr c10"
    and c: "c = rename c10"
    unfolding straight_with_heater_def Let_def add_ref_def prod.case and_then_eq_Inr
    by (elim exE conjE) (simp only: sum.inject)
  from set_orientation_lookup(1) [OF c9] set_orientation_lookup(2) [OF c10, of "Num 1"]
  have one: "map_option orientation (map_of (ports c10) (Num 1)) = Some poi" by simp
  from c10 have two: "map_option orientation (map_of (ports c10) (Num 2)) = Some poo"
    by (rule set_orientation_lookup(1))
  from c one two
  show "\<exists>c'. c = rename c'
            \<and> map_option orientation (map_of (ports c') (Num 1)) = Some poi
            \<and> map_option orientation (map_of (ports c') (Num 2)) = Some poo"
    by blast
next
  show "0 \<le> poi \<and> poi < 360 \<and> 0 \<le> poo \<and> poo < 360 \<longrightarrow> ports_ok c"
    using straight_with_heater_ports_ok [OF res heater conn ren] by blast
next
  show "\<forall>k. straight_heater_connector hp layers pw po tlm line = Inr k \<longrightarrow>
             ports_ok k
             \<and> (po = None \<longrightarrow>
                  (\<forall>(n, p) \<in> set (ports k).
                     orientation p = orientation (hp ! 0) mod 360
                     \<and> (orientation p = 0 \<or> orientation p = 180)))"
    using connector_ports_ok [of hp layers pw po tlm line]
      connector_default_orientation [of hp layers pw tlm line]
    by blast
qed

theorem straight_with_heater_port_orientation_witness:
  "\<exists>c. straight_with_heater 10 test_heater test_connector (Some 10) 90 90 () (\<lambda>c. c) = Inr c
      \<and> ports_ok c
      \<and> map_option orientation (map_of (ports c) (Num 1)) = Some 90"
proof -
  from test_run [of 90 90]
  obtain c where res: "straight_with_heater 10 test_heater test_connector (Some 10) 90 90 ()
      (\<lambda>c. c) = Inr c"
    by (cases "straight_with_heater 10 test_heater test_connector (Some 10) 90 90 () (\<lambda>c. c)")
       simp_all
  have heater: "\<forall>h. test_heater 10 () = Inr h \<longrightarrow> (\<forall>(k, p) \<in> set (ports h). 0 < width p)"
    by (auto simp: test_heater_def test_port_def)
  have conn: "\<forall>hp k. test_connector hp (Some 10) = Inr k \<longrightarrow> (\<forall>(n, p) \<in> set (ports k). 0 < width p)"
    using connector_ports_ok
    by (fastforce simp: test_connector_def ports_ok_def port_invariant_def)
  have ren: "\<forall>c. ports_ok c \<longrightarrow> ports_ok ((\<lambda>c. c) c)"
    by simp
  from straight_with_heater_port_orientation
         [where hp = "[]" and layers = test_layers and pw = None and po = None
            and tlm = test_tlm and line = test_line,
          OF res heater conn ren]
  have "ports_ok c" and "map_option orientation (map_of (ports c) (Num 1)) = Some 90"
    by auto
  with res show ?thesis by blast
qed

text \<open>
  Claim C8 as stated fails: with \<^verbatim>\<open>port_orientation_input = 450\<close> the port 1 of the
  component has the orientation 450.
\<close>

theorem straight_with_heater_orientation_counterexample:
  "map_sum id (\<lambda>c. map (\<lambda>(k, p). (k, orientation p, width p)) (ports c))
     (straight_with_heater 10 test_heater test_connector (Some 10) 450 90 () (\<lambda>c. c)) =
   Inr [(Str ''W0'', 180, 1 / 2), (Str ''E0'', 0, 1 / 2), (Str ''HTW0'', 180, 1 / 2),
        (Str ''HTE0'', 0, 1 / 2), (Str ''HBW0'', 180, 1 / 2), (Str ''HBE0'', 0, 1 / 2),
        (Num 1, 450, 10), (Num 2, 90, 10)]
   \<and> \<not> (450 :: int) < 360"
  using test_run [of 450 90] by simp

end
